theory Spec2Isabelle
  imports Complex_Main "HOL-Library.Multiset" "HOL-Library.Sublist" "HOL-Library.Log_Nat"
begin

section \<open>JavaScript numbers\<close>

text \<open>
  A JavaScript number is an IEEE 754 binary64 value. The finite ones are rationals, and they
  are modelled as such: \<open>fl x\<close> is the double nearest to the rational \<open>x\<close>, a tie going to the
  even significand, and every arithmetic operation of the code is the exact operation
  followed by \<open>fl\<close>. Overflow, subnormal numbers, \<^verbatim>\<open>NaN\<close> and the sign of zero are not
  modelled: the model follows the code while the magnitudes stay between \<open>2^-1022\<close> and
  \<open>2^1024\<close>, which holds for every number below, all of them built from integers and lengths.

  \<open>rne w\<close> rounds to the nearest integer, ties to even; \<open>expo x\<close> is the binary exponent of a
  positive \<open>x\<close>; \<open>ulp x\<close> is the distance between neighbouring doubles in the binade of \<open>x\<close>.
\<close>

type_synonym number = rat

definition rne :: "rat \<Rightarrow> int" where
  "rne w = (let f = \<lfloor>w\<rfloor>; r = w - of_int f
            in if r < 1 / 2 then f else if r > 1 / 2 then f + 1
               else if even f then f else f + 1)"

definition expo :: "rat \<Rightarrow> int" where
  "expo x = (if 1 \<le> x then bitlen \<lfloor>x\<rfloor> - 1 else - bitlen (\<lceil>1 / x\<rceil> - 1))"

definition ulp :: "rat \<Rightarrow> rat" where
  "ulp x = 2 powi (expo x - 52)"

definition fl :: "rat \<Rightarrow> number" where
  "fl x = (if x = 0 then 0
           else sgn x * of_int (rne (\<bar>x\<bar> / ulp \<bar>x\<bar>)) * ulp \<bar>x\<bar>)"

text \<open>A positive rational that is a double.\<close>

definition representable :: "rat \<Rightarrow> bool" where
  "representable r \<longleftrightarrow> 0 < r \<and> (\<exists>i::int. r = of_int i * ulp r)"

text \<open>
  \<^verbatim>\<open>Math.round(x)\<close> is the integer nearest to \<open>x\<close>, a tie going towards plus infinity; it is
  exact on a double.
\<close>

definition Math_round :: "number \<Rightarrow> int" where
  "Math_round x = \<lfloor>x + 1 / 2\<rfloor>"

text \<open>\<^verbatim>\<open>Math.round(x * 10) / 10\<close>, the expression that both averages use.\<close>

definition round_one_decimal :: "number \<Rightarrow> number" where
  "round_one_decimal x = fl (of_int (Math_round (fl (x * 10))) / 10)"

section \<open>Game records (the provider's JSON objects)\<close>

text \<open>
  A game is the JSON object the provider returns and \<^verbatim>\<open>getMockTournamentData\<close> spells out.
  Only the fields the code reads are kept. Seeds and scores are numbers holding integers;
  they are of type \<^typ>\<open>int\<close>, and an integer that is not a double is not an input.
  \<^verbatim>\<open>Status\<close> stays a string, since the code compares it with string literals and has a
  default branch for any other value. The fields that are \<^verbatim>\<open>null\<close> for a scheduled game are
  options.
\<close>

record game =
  GameID :: int
  Status :: string
  DateTime :: string
  AwayTeam :: string
  HomeTeam :: string
  AwayTeamSeed :: int
  HomeTeamSeed :: int
  AwayTeamScore :: int
  HomeTeamScore :: int
  TimeRemainingMinutes :: "int option"
  TimeRemainingSeconds :: "int option"
  Period :: "string option"
  Round :: int

section \<open>services/sportService.js\<close>

subsection \<open>The subsets of \<^verbatim>\<open>calculateTournamentStats\<close>\<close>

definition completedGames :: "game list \<Rightarrow> game list" where
  "completedGames gs = filter (\<lambda>game. Status game = ''Final'') gs"

definition inProgressGames :: "game list \<Rightarrow> game list" where
  "inProgressGames gs = filter (\<lambda>game. Status game = ''InProgress'') gs"

definition upcomingGames :: "game list \<Rightarrow> game list" where
  "upcomingGames gs = filter (\<lambda>game. Status game = ''Scheduled'') gs"

text \<open>The same filter is written out in \<^verbatim>\<open>updateTournamentData\<close> of the entry script.\<close>

definition upsets :: "game list \<Rightarrow> game list" where
  "upsets gs = filter (\<lambda>game.
       (AwayTeamSeed game > HomeTeamSeed game \<and> AwayTeamScore game > HomeTeamScore game) \<or>
       (HomeTeamSeed game > AwayTeamSeed game \<and> HomeTeamScore game > AwayTeamScore game))
     (completedGames gs)"

subsection \<open>Average points per game\<close>

text \<open>
  \<^verbatim>\<open>sum + game.AwayTeamScore + game.HomeTeamScore\<close> is two additions, each rounded.
\<close>

definition totalPoints :: "game list \<Rightarrow> number" where
  "totalPoints gs =
     foldl (\<lambda>sum game. fl (fl (sum + of_int (AwayTeamScore game)) + of_int (HomeTeamScore game)))
       0 (completedGames gs)"

definition avgPointsPerGame :: "game list \<Rightarrow> number" where
  "avgPointsPerGame gs =
     (if length (completedGames gs) \<noteq> 0
      then round_one_decimal (fl (totalPoints gs / of_nat (length (completedGames gs))))
      else 0)"

subsection \<open>Closest games\<close>

record victory =
  awayTeam :: string
  homeTeam :: string
  awayScore :: int
  homeScore :: int
  margin :: number
  winner :: string
  loser :: string

definition marginOfVictory :: "game list \<Rightarrow> victory list" where
  "marginOfVictory gs = map (\<lambda>game.
       \<lparr> awayTeam = AwayTeam game,
         homeTeam = HomeTeam game,
         awayScore = AwayTeamScore game,
         homeScore = HomeTeamScore game,
         margin = \<bar>fl (of_int (AwayTeamScore game) - of_int (HomeTeamScore game))\<bar>,
         winner = (if AwayTeamScore game > HomeTeamScore game then AwayTeam game else HomeTeam game),
         loser = (if AwayTeamScore game > HomeTeamScore game then HomeTeam game else AwayTeam game) \<rparr>)
     (completedGames gs)"

text \<open>
  \<^verbatim>\<open>Array.prototype.sort\<close> is stable (ECMAScript 2019, and the image runs Node 18). The
  comparator \<^verbatim>\<open>a.margin - b.margin\<close> is a rounded difference, whose sign is that of the exact
  difference: the result is the stable sort by the key, which is what \<^const>\<open>sort_key\<close>
  computes.
\<close>

definition closestGames :: "game list \<Rightarrow> victory list" where
  "closestGames gs = take 5 (sort_key margin (marginOfVictory gs))"

subsection \<open>Top scoring teams\<close>

text \<open>
  \<^verbatim>\<open>teamScores\<close> is a plain JavaScript object used as a dictionary from team name to
  \<^verbatim>\<open>{ points, games }\<close>. It is modelled by the list of its own properties in the order
  they were created. Two things of an object are not those of a dictionary, and both are
  kept: a read \<^verbatim>\<open>teamScores[k]\<close> of a name that \<^verbatim>\<open>Object.prototype\<close> defines finds
  the inherited member (a function or object, hence truthy) when there is no own property;
  and \<^verbatim>\<open>Object.entries\<close> lists the own keys that are array indices first, in ascending
  numeric order, and the other keys after them, in creation order. The count \<^verbatim>\<open>games\<close>
  stays below the length of an array and is a natural number.
\<close>

record team_score =
  points :: number
  games :: nat

type_synonym js_object = "(string \<times> team_score) list"

definition Object_prototype_keys :: "string list" where
  "Object_prototype_keys =
     [''constructor'', ''__defineGetter__'', ''__defineSetter__'', ''hasOwnProperty'',
      ''__lookupGetter__'', ''__lookupSetter__'', ''isPrototypeOf'', ''propertyIsEnumerable'',
      ''toString'', ''valueOf'', ''__proto__'', ''toLocaleString'']"

text \<open>The test \<^verbatim>\<open>teamScores[k]\<close> of \<^verbatim>\<open>if (!teamScores[k])\<close>: own values are objects.\<close>

definition truthy_member :: "js_object \<Rightarrow> string \<Rightarrow> bool" where
  "truthy_member obj k \<longleftrightarrow> map_of obj k \<noteq> None \<or> k \<in> set Object_prototype_keys"

text \<open>\<^verbatim>\<open>if (!teamScores[k]) teamScores[k] = { points: 0, games: 0 }\<close>\<close>

definition init_team :: "js_object \<Rightarrow> string \<Rightarrow> js_object" where
  "init_team obj k =
     (if \<not> truthy_member obj k then obj @ [(k, \<lparr> points = 0, games = 0 \<rparr>)] else obj)"

text \<open>
  \<^verbatim>\<open>teamScores[k].points += s; teamScores[k].games += 1\<close>. When \<open>k\<close> has no own property
  the two assignments land on the inherited member and leave \<^verbatim>\<open>teamScores\<close> as it is.
\<close>

definition credit :: "js_object \<Rightarrow> string \<Rightarrow> int \<Rightarrow> js_object" where
  "credit obj k s =
     map (\<lambda>(k', d). if k' = k then (k', \<lparr> points = fl (points d + of_int s), games = games d + 1 \<rparr>)
                      else (k', d)) obj"

text \<open>The callback of \<^verbatim>\<open>completedGames.forEach\<close>.\<close>

definition team_step :: "js_object \<Rightarrow> game \<Rightarrow> js_object" where
  "team_step obj game =
     (let obj1 = init_team obj (AwayTeam game);
          obj2 = init_team obj1 (HomeTeam game);
          obj3 = credit obj2 (AwayTeam game) (AwayTeamScore game)
      in credit obj3 (HomeTeam game) (HomeTeamScore game))"

definition teamScores :: "game list \<Rightarrow> js_object" where
  "teamScores gs = foldl team_step [] (completedGames gs)"

text \<open>
  An array index is the canonical decimal string of an integer from 0 to \<open>2^32 - 2\<close>.
\<close>

definition array_index_value :: "string \<Rightarrow> nat" where
  "array_index_value k = foldl (\<lambda>n c. 10 * n + (of_char c - 48)) 0 k"

definition is_array_index :: "string \<Rightarrow> bool" where
  "is_array_index k \<longleftrightarrow>
     k \<noteq> [] \<and> list_all (\<lambda>c. c \<in> set ''0123456789'') k \<and>
     (k = ''0'' \<or> hd k \<noteq> CHR ''0'') \<and> array_index_value k < 2 ^ 32 - 1"

definition Object_entries :: "js_object \<Rightarrow> (string \<times> team_score) list" where
  "Object_entries obj =
     sort_key (\<lambda>kv. array_index_value (fst kv)) (filter (\<lambda>kv. is_array_index (fst kv)) obj) @
     filter (\<lambda>kv. \<not> is_array_index (fst kv)) obj"

record team_avg =
  team :: string
  avgPoints :: number
  team_totalPoints :: number
  team_games :: nat

text \<open>The comparator \<^verbatim>\<open>b.avgPoints - a.avgPoints\<close> sorts descending, and stably.\<close>

definition teamsWithAvg :: "game list \<Rightarrow> team_avg list" where
  "teamsWithAvg gs =
     sort_key (\<lambda>t. - avgPoints t)
       (filter (\<lambda>t. team_games t > 0)
          (map (\<lambda>(k, d).
                  \<lparr> team = k,
                    avgPoints = (if games d \<noteq> 0
                                 then round_one_decimal (fl (points d / of_nat (games d)))
                                 else 0),
                    team_totalPoints = points d,
                    team_games = games d \<rparr>)
             (Object_entries (teamScores gs))))"

definition topScoringTeams :: "game list \<Rightarrow> team_avg list" where
  "topScoringTeams gs = take 5 (teamsWithAvg gs)"

subsection \<open>The result of \<^verbatim>\<open>calculateTournamentStats\<close>\<close>

record stats =
  st_totalGames :: nat
  st_completedGames :: nat
  st_inProgressGames :: nat
  st_upcomingGames :: nat
  st_upsets :: nat
  st_avgPointsPerGame :: number
  st_topScoringTeams :: "team_avg list"
  st_closestGames :: "victory list"

definition calculateTournamentStats :: "game list \<Rightarrow> stats" where
  "calculateTournamentStats gs =
     \<lparr> st_totalGames = length gs,
       st_completedGames = length (completedGames gs),
       st_inProgressGames = length (inProgressGames gs),
       st_upcomingGames = length (upcomingGames gs),
       st_upsets = length (upsets gs),
       st_avgPointsPerGame = avgPointsPerGame gs,
       st_topScoringTeams = topScoringTeams gs,
       st_closestGames = closestGames gs \<rparr>"

subsection \<open>The fixed dataset of \<^verbatim>\<open>getMockTournamentData\<close>\<close>

definition getMockTournamentData :: "game list" where
  "getMockTournamentData =
    [ \<lparr> GameID = 1001, Status = ''Final'', DateTime = ''2025-03-19T19:15:00'',
        AwayTeam = ''Virginia'', HomeTeam = ''Colorado'',
        AwayTeamSeed = 9, HomeTeamSeed = 8, AwayTeamScore = 57, HomeTeamScore = 63,
        TimeRemainingMinutes = Some 0, TimeRemainingSeconds = Some 0,
        Period = Some ''2H'', Round = 1 \<rparr>,
      \<lparr> GameID = 1002, Status = ''Final'', DateTime = ''2025-03-19T12:15:00'',
        AwayTeam = ''Duquesne'', HomeTeam = ''BYU'',
        AwayTeamSeed = 11, HomeTeamSeed = 6, AwayTeamScore = 71, HomeTeamScore = 69,
        TimeRemainingMinutes = Some 0, TimeRemainingSeconds = Some 0,
        Period = Some ''2H'', Round = 1 \<rparr>,
      \<lparr> GameID = 1003, Status = ''InProgress'', DateTime = ''2025-03-20T14:30:00'',
        AwayTeam = ''NC State'', HomeTeam = ''Texas Tech'',
        AwayTeamSeed = 10, HomeTeamSeed = 7, AwayTeamScore = 45, HomeTeamScore = 42,
        TimeRemainingMinutes = Some 12, TimeRemainingSeconds = Some 34,
        Period = Some ''2H'', Round = 1 \<rparr>,
      \<lparr> GameID = 1004, Status = ''Scheduled'', DateTime = ''2025-03-20T19:20:00'',
        AwayTeam = ''Marquette'', HomeTeam = ''Western Kentucky'',
        AwayTeamSeed = 2, HomeTeamSeed = 15, AwayTeamScore = 0, HomeTeamScore = 0,
        TimeRemainingMinutes = None, TimeRemainingSeconds = None,
        Period = None, Round = 1 \<rparr>,
      \<lparr> GameID = 1005, Status = ''Scheduled'', DateTime = ''2025-03-20T21:30:00'',
        AwayTeam = ''Kentucky'', HomeTeam = ''Oakland'',
        AwayTeamSeed = 3, HomeTeamSeed = 14, AwayTeamScore = 0, HomeTeamScore = 0,
        TimeRemainingMinutes = None, TimeRemainingSeconds = None,
        Period = None, Round = 1 \<rparr> ]"

section \<open>Strings and the functions of the runtime\<close>

text \<open>
  Strings are byte strings: a character outside ASCII is the sequence of its UTF-8 bytes,
  as the source files hold it.
\<close>

definition padStart :: "nat \<Rightarrow> char \<Rightarrow> string \<Rightarrow> string" where
  "padStart n c str = replicate (n - length str) c @ str"

fun join :: "string \<Rightarrow> string list \<Rightarrow> string" where
  "join sep [] = []"
| "join sep [x] = x"
| "join sep (x # y # ys) = x @ sep @ join sep (y # ys)"

definition newline :: string where
  "newline = [CHR 0x0A]"

text \<open>
  The conversions of the runtime are not code of the repository. The date functions depend
  on the locale data and the time zone of the process, which are fixed while it runs; the
  conversion of a number to a string is the one a template literal applies. They are
  parameters: the time value of a date string (a number of milliseconds), the three date
  formats the code asks for, the ISO format, and the string of a number.
\<close>

record runtime =
  Date_parse :: "string \<Rightarrow> int"
  toLocaleTimeString :: "int \<Rightarrow> string"
  toLocaleString_medium :: "int \<Rightarrow> string"
  toLocaleString :: "int \<Rightarrow> string"
  toISOString :: "int \<Rightarrow> string"
  Number_toString :: "number \<Rightarrow> string"

text \<open>\<^verbatim>\<open>String(v)\<close> of a number that may be \<^verbatim>\<open>null\<close>.\<close>

definition String_of_nullable :: "runtime \<Rightarrow> int option \<Rightarrow> string" where
  "String_of_nullable h v =
     (case v of None \<Rightarrow> ''null'' | Some i \<Rightarrow> Number_toString h (of_int i))"

section \<open>services/canvasService.js and its second copy\<close>

text \<open>
  The repository holds the canvas service twice: \<^verbatim>\<open>services/canvasService.js\<close>, which the
  entry script loads, and a second copy whose path is not known. The two
  \<^verbatim>\<open>formatGameForDisplay\<close> differ only in the bytes of their pictographs, which are taken
  as a parameter here; the other functions of the second copy carry the suffix \<open>_copy\<close>.
\<close>

record glyphs =
  flag :: string
  ball :: string
  calendar :: string
  question :: string
  siren :: string
  corner :: string
  fire :: string

definition service_glyphs :: glyphs where
  "service_glyphs =
     \<lparr> flag = [CHR 0xF0, CHR 0x9F, CHR 0x8F, CHR 0x81],
       ball = [CHR 0xF0, CHR 0x9F, CHR 0x8F, CHR 0x80],
       calendar = [CHR 0xF0, CHR 0x9F, CHR 0x93, CHR 0x85],
       question = [CHR 0xE2, CHR 0x9D, CHR 0x93],
       siren = [CHR 0xF0, CHR 0x9F, CHR 0x9A, CHR 0xA8],
       corner = [CHR 0xE2, CHR 0x94, CHR 0x94],
       fire = [CHR 0xF0, CHR 0x9F, CHR 0x94, CHR 0xA5] \<rparr>"

definition copy_glyphs :: glyphs where
  "copy_glyphs =
     \<lparr> flag = [CHR 0xEF, CHR 0xA3, CHR 0xBF, CHR 0xC3, CHR 0xBC, CHR 0xC3, CHR 0xA8, CHR 0xC3, CHR 0x85],
       ball = [CHR 0xEF, CHR 0xA3, CHR 0xBF, CHR 0xC3, CHR 0xBC, CHR 0xC3, CHR 0xA8, CHR 0xC3, CHR 0x84],
       calendar = [CHR 0xEF, CHR 0xA3, CHR 0xBF, CHR 0xC3, CHR 0xBC, CHR 0xC3, CHR 0xAC, CHR 0xC3, CHR 0x96],
       question = [CHR 0xE2, CHR 0x80, CHR 0x9A, CHR 0xC3, CHR 0xB9, CHR 0xC3, CHR 0xAC],
       siren = [CHR 0xEF, CHR 0xA3, CHR 0xBF, CHR 0xC3, CHR 0xBC, CHR 0xC3, CHR 0xB6, CHR 0xC2, CHR 0xAE],
       corner = [CHR 0xE2, CHR 0x80, CHR 0x9A, CHR 0xC3, CHR 0xAE, CHR 0xC3, CHR 0xAE],
       fire = [CHR 0xEF, CHR 0xA3, CHR 0xBF, CHR 0xC3, CHR 0xBC, CHR 0xC3, CHR 0xAE, CHR 0xE2, CHR 0x80, CHR 0xA2] \<rparr>"

definition formatGameForDisplay :: "glyphs \<Rightarrow> runtime \<Rightarrow> game \<Rightarrow> string" where
  "formatGameForDisplay gl h game =
     (let (statusEmoji, statusText) =
            (if Status game = ''Final'' then (flag gl, ''FINAL'')
             else if Status game = ''InProgress'' then
               (ball gl,
                (case Period game of None \<Rightarrow> ''null'' | Some p \<Rightarrow> p) @ '' '' @
                String_of_nullable h (TimeRemainingMinutes game) @ '':'' @
                padStart 2 (CHR ''0'') (String_of_nullable h (TimeRemainingSeconds game)))
             else if Status game = ''Scheduled'' then
               (calendar gl, toLocaleTimeString h (Date_parse h (DateTime game)))
             else (question gl, Status game));
          isUpset = (Status game = ''Final'' \<and>
            ((AwayTeamSeed game > HomeTeamSeed game \<and> AwayTeamScore game > HomeTeamScore game) \<or>
             (HomeTeamSeed game > AwayTeamSeed game \<and> HomeTeamScore game > AwayTeamScore game)))
      in statusEmoji @ '' '' @
         ''('' @ Number_toString h (of_int (AwayTeamSeed game)) @ '') *'' @ AwayTeam game @ ''* '' @
         (if Status game \<noteq> ''Scheduled''
          then Number_toString h (of_int (AwayTeamScore game)) @ '' - '' @
               Number_toString h (of_int (HomeTeamScore game)) @ '' ''
          else ''vs '') @
         ''*'' @ HomeTeam game @ ''* ('' @ Number_toString h (of_int (HomeTeamSeed game)) @ '')'' @
         (if isUpset then '' '' @ siren gl @ '' UPSET! '' @ siren gl else []) @
         newline @ corner gl @ '' _'' @ statusText @
         '' | Round '' @ Number_toString h (of_int (Round game)) @ ''_'')"

definition closestGames_lines :: "runtime \<Rightarrow> victory list \<Rightarrow> string" where
  "closestGames_lines h vs =
     concat (map (\<lambda>(index, v).
        Number_toString h (of_nat (index + 1)) @ ''. '' @ winner v @ '' def. '' @ loser v @
        '' by '' @
        Number_toString h (margin v) @ '' ('' @ Number_toString h (of_int (awayScore v)) @ ''-'' @
        Number_toString h (of_int (homeScore v)) @ '')'' @ newline) (enumerate 0 vs))"

definition formatStatisticsForDisplay :: "runtime \<Rightarrow> stats \<Rightarrow> string" where
  "formatStatisticsForDisplay h st =
     ''*Tournament Progress*: '' @
       Number_toString h (of_nat (st_completedGames st)) @ '' completed, '' @
       Number_toString h (of_nat (st_inProgressGames st)) @ '' in progress, '' @
       Number_toString h (of_nat (st_upcomingGames st)) @ '' upcoming'' @ newline @
     (if st_upsets st > 0
      then ''*Upsets*: '' @ Number_toString h (of_nat (st_upsets st)) @ '' so far'' @ newline
      else []) @
     ''*Average Points*: '' @ Number_toString h (st_avgPointsPerGame st) @ '' points per game'' @
       newline @ newline @
     (if length (st_topScoringTeams st) > 0
      then ''*Top Scoring Teams (Avg)*:'' @ newline @
           concat (map (\<lambda>(index, t).
              Number_toString h (of_nat (index + 1)) @ ''. '' @ team t @ '': '' @
              Number_toString h (avgPoints t) @ '' ppg'' @ newline)
             (enumerate 0 (st_topScoringTeams st))) @
           newline
      else []) @
     (if length (st_closestGames st) > 0
      then ''*Closest Games*:'' @ newline @ closestGames_lines h (st_closestGames st)
      else [])"

definition formatStatisticsForDisplay_copy :: "runtime \<Rightarrow> stats \<Rightarrow> string" where
  "formatStatisticsForDisplay_copy h st =
     ''*Tournament Progress*: '' @
       Number_toString h (of_nat (st_completedGames st)) @ '' completed, '' @
       Number_toString h (of_nat (st_inProgressGames st)) @ '' in progress, '' @
       Number_toString h (of_nat (st_upcomingGames st)) @ '' upcoming'' @ newline @
     (if st_upsets st > 0
      then ''*Upsets*: '' @ Number_toString h (of_nat (st_upsets st)) @ '' so far'' @ newline
      else []) @
     ''*Average Points Per Game*: '' @ Number_toString h (st_avgPointsPerGame st) @
       newline @ newline @
     (if length (st_topScoringTeams st) > 0
      then ''*Top Scoring Teams*:'' @ newline @
           concat (map (\<lambda>(index, t).
              Number_toString h (of_nat (index + 1)) @ ''. '' @ team t @ '' - '' @
              Number_toString h (avgPoints t) @ '' ppg'' @ newline)
             (enumerate 0 (st_topScoringTeams st))) @
           newline
      else []) @
     (if length (st_closestGames st) > 0
      then ''*Closest Games*:'' @ newline @ closestGames_lines h (st_closestGames st)
      else [])"

text \<open>
  The data handed to \<^verbatim>\<open>updateCanvasContent\<close>: the object \<^verbatim>\<open>tournamentData\<close> of the entry
  script. A property that an object may lack is an option; the properties no function
  reads (\<^verbatim>\<open>bracket\<close>, \<^verbatim>\<open>status\<close>, \<^verbatim>\<open>message\<close>) are left out.
\<close>

record tournament_data =
  td_games :: "game list"
  td_currentGames :: "game list option"
  td_completedGames :: "game list option"
  td_upcomingGames :: "game list option"
  td_closeGames :: "game list option"
  td_upsets :: "game list option"
  td_stats :: "stats option"
  td_lastUpdated :: "string option"

text \<open>
  A canvas block: a header (plain text), a divider, a section (markdown text) or a context
  element (markdown text).
\<close>

datatype block = Header string | Divider | Section string | Context string

definition tracker_title :: "glyphs \<Rightarrow> string" where
  "tracker_title gl = ball gl @ '' NCAA Tournament Tracker 2025 '' @ ball gl"

text \<open>The array literal of both copies, with the five texts that vary.\<close>

definition block_array ::
    "glyphs \<Rightarrow> string \<Rightarrow> string \<Rightarrow> string \<Rightarrow> string \<Rightarrow> string \<Rightarrow> block list" where
  "block_array gl currentText completedText upcomingText statsText footerText =
     [ Header (tracker_title gl), Divider,
       Header ''Games In Progress'', Section currentText, Divider,
       Header ''Recently Completed Games'', Section completedText, Divider,
       Header ''Upcoming Games'', Section upcomingText, Divider,
       Header ''Tournament Statistics'', Section statsText, Divider,
       Context footerText ]"

text \<open>\<^verbatim>\<open>data.xs && data.xs.length > 0\<close>\<close>

definition present :: "'a list option \<Rightarrow> bool" where
  "present xs \<longleftrightarrow> (case xs of None \<Rightarrow> False | Some ys \<Rightarrow> length ys > 0)"

definition alert_section :: "runtime \<Rightarrow> game list \<Rightarrow> block" where
  "alert_section h cs =
     Section (fire service_glyphs @ '' *CLOSE GAME ALERT* '' @ fire service_glyphs @ newline @
              join (newline @ newline) (map (formatGameForDisplay service_glyphs h) cs))"

text \<open>
  The blocks that \<^verbatim>\<open>updateCanvasContent\<close> of \<^verbatim>\<open>services/canvasService.js\<close> passes to
  \<^verbatim>\<open>web.canvas.update\<close>; \<^verbatim>\<open>splice(2, 0, a, b)\<close> inserts two blocks at index 2.
\<close>

definition updatedBlocks :: "runtime \<Rightarrow> tournament_data \<Rightarrow> block list" where
  "updatedBlocks h data =
     (let fmt = formatGameForDisplay service_glyphs h;
          currentGamesText =
            (if present (td_currentGames data)
             then join (newline @ newline) (map fmt (the (td_currentGames data)))
             else ''No games currently in progress.'');
          recentCompletedGames =
            (case td_completedGames data of
               Some cs \<Rightarrow> take 5 (sort_key (\<lambda>g. - Date_parse h (DateTime g)) cs)
             | None \<Rightarrow> []);
          completedGamesText =
            (if length recentCompletedGames > 0
             then join (newline @ newline) (map fmt recentCompletedGames)
             else ''No completed games yet.'');
          upcoming =
            (case td_upcomingGames data of
               Some us \<Rightarrow> take 5 (sort_key (\<lambda>g. Date_parse h (DateTime g)) us)
             | None \<Rightarrow> []);
          upcomingGamesText =
            (if length upcoming > 0
             then join (newline @ newline) (map fmt upcoming)
             else ''No upcoming games scheduled.'');
          statsText =
            (case td_stats data of
               Some st \<Rightarrow> formatStatisticsForDisplay h st
             | None \<Rightarrow> ''Statistics not available yet.'');
          lastUpdated =
            (case td_lastUpdated data of
               Some stamp \<Rightarrow> (if stamp \<noteq> [] then toLocaleString_medium h (Date_parse h stamp)
                             else ''Unknown'')
             | None \<Rightarrow> ''Unknown'');
          blocks = block_array service_glyphs currentGamesText completedGamesText
                     upcomingGamesText statsText (''Last updated: '' @ lastUpdated)
      in if present (td_closeGames data)
         then take 2 blocks @ [alert_section h (the (td_closeGames data)), Divider] @ drop 2 blocks
         else blocks)"

text \<open>
  The blocks of the second copy. It reads the clock: \<open>now\<close> is the time value of
  \<^verbatim>\<open>new Date()\<close> at the call.
\<close>

definition blocks_copy :: "runtime \<Rightarrow> int \<Rightarrow> tournament_data \<Rightarrow> block list" where
  "blocks_copy h now data =
     (let fmt = formatGameForDisplay copy_glyphs h;
          lastUpdatedText = ''Last updated: '' @ toLocaleString h now;
          gamesInProgressContent =
            (if present (td_currentGames data)
             then (if present (td_closeGames data)
                   then (let closeGameIds = map GameID (the (td_closeGames data))
                         in join (newline @ newline)
                              (map (\<lambda>game. fmt game @
                                      (if GameID game \<in> set closeGameIds
                                       then '' '' @ fire copy_glyphs @ '' CLOSE GAME!'' else []))
                                 (the (td_currentGames data))))
                   else join (newline @ newline) (map fmt (the (td_currentGames data))))
             else ''No games in progress.'');
          completedGamesContent =
            (if present (td_completedGames data)
             then join (newline @ newline)
                    (map fmt (take 10 (sort_key (\<lambda>g. - Date_parse h (DateTime g))
                                         (the (td_completedGames data)))))
             else ''No completed games.'');
          upcomingGamesContent =
            (if present (td_upcomingGames data)
             then join (newline @ newline)
                    (map fmt (take 10 (sort_key (\<lambda>g. Date_parse h (DateTime g))
                                         (the (td_upcomingGames data)))))
             else ''No upcoming games.'');
          statisticsContent =
            (case td_stats data of
               Some st \<Rightarrow> formatStatisticsForDisplay_copy h st
             | None \<Rightarrow> ''Statistics not available.'')
      in block_array copy_glyphs gamesInProgressContent completedGamesContent
           upcomingGamesContent statisticsContent lastUpdatedText)"

text \<open>
  \<^verbatim>\<open>web.canvas.update\<close> either resolves or rejects with an error message. The function
  logs a rejection and throws it again: the result is the console output and either the
  error (\<open>Inl\<close>) or nothing.
\<close>

type_synonym canvas_api = "block list \<Rightarrow> string + unit"

definition updateCanvasContent ::
    "canvas_api \<Rightarrow> runtime \<Rightarrow> tournament_data \<Rightarrow> string list \<times> (string + unit)" where
  "updateCanvasContent web h data =
     (case web (updatedBlocks h data) of
        Inr result \<Rightarrow> ([], Inr result)
      | Inl message \<Rightarrow> ([''Error updating Canvas content: '' @ message], Inl message))"

definition updateCanvasContent_copy ::
    "canvas_api \<Rightarrow> runtime \<Rightarrow> int \<Rightarrow> tournament_data \<Rightarrow> string list \<times> (string + unit)" where
  "updateCanvasContent_copy web h now data =
     (case web (blocks_copy h now data) of
        Inr result \<Rightarrow> ([], Inr result)
      | Inl message \<Rightarrow> ([''Error updating Canvas content: '' @ message], Inl message))"

section \<open>The provider call and the refresh cycle\<close>

text \<open>
  \<^verbatim>\<open>fetchNcaaGames\<close>: the outcome of \<^verbatim>\<open>axios.get\<close> is either a rejection with a message or
  the response data. The result is the console output and the games.
\<close>

definition fetchNcaaGames :: "string + game list \<Rightarrow> string list \<times> game list" where
  "fetchNcaaGames response =
     (case response of
        Inr data \<Rightarrow> ([], data)
      | Inl message \<Rightarrow> ([''Error fetching NCAA games: '' @ message], getMockTournamentData))"

text \<open>What one refresh cycle meets outside the process.\<close>

record env =
  axios_get :: "string + game list"
  web_canvas_update :: canvas_api
  host :: runtime
  clock :: int
  NOTIFICATION_THRESHOLD :: int

text \<open>
  The initial value of \<^verbatim>\<open>tournamentData\<close>. Its \<^verbatim>\<open>stats\<close> is the empty object, which no
  function reads before the first cycle replaces it; it is modelled as absent.
\<close>

definition initial_tournamentData :: tournament_data where
  "initial_tournamentData =
     \<lparr> td_games = [], td_currentGames = None, td_completedGames = None,
       td_upcomingGames = None, td_closeGames = None, td_upsets = Some [],
       td_stats = None, td_lastUpdated = None \<rparr>"

text \<open>
  \<^verbatim>\<open>updateTournamentData\<close> of the entry script, from the value of \<^verbatim>\<open>tournamentData\<close> before
  the call to its value after it and the console output. The assignment to
  \<^verbatim>\<open>tournamentData\<close> comes before the \<^verbatim>\<open>await\<close> of the canvas update, and the \<^verbatim>\<open>catch\<close>
  only logs.
\<close>

definition updateTournamentData :: "env \<Rightarrow> tournament_data \<Rightarrow> tournament_data \<times> string list" where
  "updateTournamentData e tournamentData =
     (let (fetchLog, gameData) = fetchNcaaGames (axios_get e);
          currentGames = filter (\<lambda>game. Status game = ''InProgress'') gameData;
          completed = filter (\<lambda>game. Status game = ''Final'') gameData;
          upcoming = filter (\<lambda>game. Status game = ''Scheduled'') gameData;
          closeGames = filter (\<lambda>game.
              \<bar>fl (of_int (AwayTeamScore game) - of_int (HomeTeamScore game))\<bar>
                \<le> of_int (NOTIFICATION_THRESHOLD e)) currentGames;
          tournamentData' =
            \<lparr> td_games = gameData,
              td_currentGames = Some currentGames,
              td_completedGames = Some completed,
              td_upcomingGames = Some upcoming,
              td_closeGames = Some closeGames,
              td_upsets = Some (upsets gameData),
              td_stats = Some (calculateTournamentStats gameData),
              td_lastUpdated = Some (toISOString (host e) (clock e)) \<rparr>;
          (canvasLog, outcome) = updateCanvasContent (web_canvas_update e) (host e) tournamentData'
      in (tournamentData',
          [''Fetching NCAA tournament data...''] @ fetchLog @ canvasLog @
          (case outcome of
             Inr _ \<Rightarrow> [''Tournament data updated successfully. '' @
                        Number_toString (host e) (of_nat (length currentGames)) @ '' in progress, '' @
                        Number_toString (host e) (of_nat (length completed)) @ '' completed, '' @
                        Number_toString (host e) (of_nat (length upcoming)) @ '' upcoming.'']
           | Inl message \<Rightarrow> [''Failed to update tournament data: '' @ message])))"

text \<open>
  The three read-only answers of the direct-message handler: each counts a list of
  \<^verbatim>\<open>tournamentData\<close>, an absent list counting as empty.
\<close>

definition count_or_empty :: "game list option \<Rightarrow> nat" where
  "count_or_empty xs = (case xs of None \<Rightarrow> 0 | Some ys \<Rightarrow> length ys)"

definition reply_current :: "runtime \<Rightarrow> tournament_data \<Rightarrow> string" where
  "reply_current h td =
     ''There are '' @ Number_toString h (of_nat (count_or_empty (td_currentGames td))) @
     '' games in progress right now.''"

definition reply_close :: "runtime \<Rightarrow> tournament_data \<Rightarrow> string" where
  "reply_close h td =
     ''There are '' @ Number_toString h (of_nat (count_or_empty (td_closeGames td))) @
     '' close games right now.''"

definition reply_upset :: "runtime \<Rightarrow> tournament_data \<Rightarrow> string" where
  "reply_upset h td =
     ''There have been '' @ Number_toString h (of_nat (count_or_empty (td_upsets td))) @
     '' upsets in the tournament so far.''"

section \<open>Reference notions for the statistics\<close>

text \<open>
  The notions below are not code of the repository. They say, in the words of the
  specification, what the per-team aggregates are: the teams in the order in which a scan
  of the completed games first meets them (away side before home side), and for each team
  the points it scored and the games it played on either side. \<open>round_to_tenth\<close> is the
  rounding of a rational to one decimal place, a tie going up; its result is a decimal
  number, and \<open>fl\<close> of it is the double that the program holds for it.
\<close>

definition add_team :: "string list \<Rightarrow> string \<Rightarrow> string list" where
  "add_team acc t = (if t \<in> set acc then acc else acc @ [t])"

definition encounter_order :: "game list \<Rightarrow> string list" where
  "encounter_order cs = foldl add_team [] (concat (map (\<lambda>g. [AwayTeam g, HomeTeam g]) cs))"

definition points_scored :: "string \<Rightarrow> game list \<Rightarrow> int" where
  "points_scored t cs =
     (\<Sum>g\<leftarrow>cs. (if AwayTeam g = t then AwayTeamScore g else 0) +
               (if HomeTeam g = t then HomeTeamScore g else 0))"

definition games_played :: "string \<Rightarrow> game list \<Rightarrow> nat" where
  "games_played t cs =
     (\<Sum>g\<leftarrow>cs. (if AwayTeam g = t then 1 else 0) + (if HomeTeam g = t then 1 else 0))"

definition round_to_tenth :: "rat \<Rightarrow> rat" where
  "round_to_tenth x = of_int \<lfloor>x * 10 + 1 / 2\<rfloor> / 10"

definition per_team :: "game list \<Rightarrow> team_avg list" where
  "per_team cs =
     map (\<lambda>t. \<lparr> team = t,
                avgPoints = fl (round_to_tenth
                                  (of_int (points_scored t cs) / of_nat (games_played t cs))),
                team_totalPoints = of_int (points_scored t cs),
                team_games = games_played t cs \<rparr>)
       (encounter_order cs)"

definition tally :: "game list \<Rightarrow> string \<Rightarrow> string \<times> team_score" where
  "tally cs k = (k, \<lparr> points = of_int (points_scored k cs), games = games_played k cs \<rparr>)"

text \<open>
  A team name that behaves as a dictionary key of \<^verbatim>\<open>teamScores\<close>: neither an array index
  nor the name of a member of \<^verbatim>\<open>Object.prototype\<close>.
\<close>

definition plain_team :: "string \<Rightarrow> bool" where
  "plain_team t \<longleftrightarrow> \<not> is_array_index t \<and> t \<notin> set Object_prototype_keys"

text \<open>
  The range of scores for which the sums of the program are exact and its two averages are
  correctly rounded: the completed games have scores that are not negative, and their sum
  is below \<open>2^46\<close>.
\<close>

definition points_total :: "game list \<Rightarrow> int" where
  "points_total cs = (\<Sum>g\<leftarrow>cs. AwayTeamScore g + HomeTeamScore g)"

definition modest_scores :: "game list \<Rightarrow> bool" where
  "modest_scores gs \<longleftrightarrow>
     (\<forall>g \<in> set gs. Status g = ''Final'' \<longrightarrow> 0 \<le> AwayTeamScore g \<and> 0 \<le> HomeTeamScore g) \<and>
     points_total (filter (\<lambda>g. Status g = ''Final'') gs) < 2 ^ 46"

section \<open>Example batches and a sample runtime\<close>

text \<open>Two completed games; the away team of the second one is named \<^verbatim>\<open>12\<close>.\<close>

definition numeric_name_batch :: "game list" where
  "numeric_name_batch =
    [ \<lparr> GameID = 1, Status = ''Final'', DateTime = ''2025-03-19T12:15:00'',
        AwayTeam = ''Duke'', HomeTeam = ''UNC'',
        AwayTeamSeed = 1, HomeTeamSeed = 16, AwayTeamScore = 70, HomeTeamScore = 60,
        TimeRemainingMinutes = Some 0, TimeRemainingSeconds = Some 0,
        Period = Some ''2H'', Round = 1 \<rparr>,
      \<lparr> GameID = 2, Status = ''Final'', DateTime = ''2025-03-19T19:15:00'',
        AwayTeam = ''12'', HomeTeam = ''Rice'',
        AwayTeamSeed = 2, HomeTeamSeed = 15, AwayTeamScore = 70, HomeTeamScore = 50,
        TimeRemainingMinutes = Some 0, TimeRemainingSeconds = Some 0,
        Period = Some ''2H'', Round = 1 \<rparr> ]"

text \<open>One completed game that ended level.\<close>

definition tied_game :: game where
  "tied_game =
     \<lparr> GameID = 7, Status = ''Final'', DateTime = ''2025-03-19T12:15:00'',
       AwayTeam = ''Duke'', HomeTeam = ''UNC'',
       AwayTeamSeed = 12, HomeTeamSeed = 5, AwayTeamScore = 60, HomeTeamScore = 60,
       TimeRemainingMinutes = Some 0, TimeRemainingSeconds = Some 0,
       Period = Some ''2H'', Round = 1 \<rparr>"

definition tied_batch :: "game list" where
  "tied_batch = [tied_game]"

text \<open>
  A runtime for the evaluations below. It prints an integer in decimal and a time value
  as its number of milliseconds; it stands for no particular locale.
\<close>

fun String_of_nat :: "nat \<Rightarrow> string" where
  "String_of_nat n =
     (if n < 10 then [''0123456789'' ! n]
      else String_of_nat (n div 10) @ [''0123456789'' ! (n mod 10)])"

declare String_of_nat.simps [simp del]

definition String_of_int :: "int \<Rightarrow> string" where
  "String_of_int i = (if i < 0 then ''-'' @ String_of_nat (nat (- i)) else String_of_nat (nat i))"

definition sample_runtime :: runtime where
  "sample_runtime =
     \<lparr> Date_parse = (\<lambda>s. int (length s)),
       toLocaleTimeString = String_of_int,
       toLocaleString_medium = String_of_int,
       toLocaleString = String_of_int,
       toISOString = String_of_int,
       Number_toString = (\<lambda>x. String_of_int \<lfloor>x\<rfloor>) \<rparr>"

text \<open>A cycle whose provider call and whose canvas update both fail.\<close>

definition failing_env :: env where
  "failing_env =
     \<lparr> axios_get = Inl ''timeout'',
       web_canvas_update = (\<lambda>blocks. Inl ''canvas_not_found''),
       host = sample_runtime, clock = 1000, NOTIFICATION_THRESHOLD = 5 \<rparr>"

section \<open>Rounding to a double\<close>

lemma rne_disj:
  "(rne w = \<lfloor>w\<rfloor> \<and> w - of_int \<lfloor>w\<rfloor> \<le> 1 / 2) \<or>
   (rne w = \<lfloor>w\<rfloor> + 1 \<and> 1 / 2 \<le> w - of_int \<lfloor>w\<rfloor>)"
  by (auto simp: rne_def Let_def)

lemma floor_bounds: "of_int \<lfloor>w\<rfloor> \<le> (w::rat)" "w < of_int \<lfloor>w\<rfloor> + 1"
  by linarith+

lemma rne_of_int [simp]: "rne (of_int i) = i"
  by (simp add: rne_def)

lemma rne_err: "\<bar>of_int (rne w) - w\<bar> \<le> 1 / 2"
  using floor_bounds [of w] rne_disj [of w] by (auto simp: abs_le_iff)

lemma rne_ge: "of_int c \<le> w \<Longrightarrow> c \<le> rne w"
proof -
  assume "of_int c \<le> w"
  then have "c \<le> \<lfloor>w\<rfloor>" by (simp add: le_floor_iff)
  then show ?thesis using rne_disj [of w] by auto
qed

lemma rne_le: "w \<le> of_int c \<Longrightarrow> rne w \<le> c"
proof (cases "w = of_int c")
  case True
  then show ?thesis by simp
next
  case False
  assume "w \<le> of_int c"
  with False have "w < of_int c" by simp
  then have "\<lfloor>w\<rfloor> < c" by (simp add: floor_less_iff)
  then show ?thesis using rne_disj [of w] by auto
qed

lemma rne_half_even:
  assumes "even c" and "of_int c - 1 / 2 \<le> w"
  shows "c \<le> rne w"
proof (cases "of_int c \<le> w")
  case True
  then show ?thesis by (rule rne_ge)
next
  case False
  then have lt: "w < of_int c" by simp
  have "of_int (c - 1) \<le> w" using assms(2) by simp
  then have "c - 1 \<le> \<lfloor>w\<rfloor>" by (simp only: le_floor_iff)
  moreover from lt have "\<lfloor>w\<rfloor> < c" by (simp add: floor_less_iff)
  ultimately have f: "\<lfloor>w\<rfloor> = c - 1" by simp
  then have r: "1 / 2 \<le> w - of_int \<lfloor>w\<rfloor>" using assms(2) by simp
  have odd: "odd \<lfloor>w\<rfloor>" using f assms(1) by simp
  show ?thesis
  proof (cases "w - of_int \<lfloor>w\<rfloor> = 1 / 2")
    case True
    then show ?thesis using odd f by (simp add: rne_def Let_def)
  next
    case False
    with r have "w - of_int \<lfloor>w\<rfloor> > 1 / 2" by simp
    then show ?thesis using f by (simp add: rne_def Let_def)
  qed
qed

lemma rne_fifths: "\<bar>of_int (rne (of_int M / 5)) - (of_int M / 5 :: rat)\<bar> \<le> 2 / 5"
proof -
  define a where "a = M div 5"
  define r where "r = M mod 5"
  have M: "M = 5 * a + r" and r: "0 \<le> r" "r < 5"
    by (simp_all add: a_def r_def)
  have w: "(of_int M / 5 :: rat) = of_int a + of_int r / 5"
    by (simp add: M)
  have fl: "\<lfloor>of_int M / 5 :: rat\<rfloor> = a"
    unfolding w using r by (intro floor_unique) (simp_all add: field_simps)
  have ri: "(of_int M / 5 :: rat) - of_int \<lfloor>of_int M / 5 :: rat\<rfloor> = of_int r / 5"
    unfolding fl by (simp add: w)
  from rne_disj [of "of_int M / 5"] show ?thesis
  proof
    assume h: "rne (of_int M / 5) = \<lfloor>of_int M / 5 :: rat\<rfloor> \<and>
      (of_int M / 5 :: rat) - of_int \<lfloor>of_int M / 5 :: rat\<rfloor> \<le> 1 / 2"
    then have "(of_int r :: rat) \<le> 5 / 2" by (simp add: ri)
    then have "(of_int (2 * r) :: rat) \<le> of_int 5" by simp
    then have "2 * r \<le> 5" by (simp only: of_int_le_iff)
    then have "r \<le> 2" by simp
    then have "(of_int r :: rat) \<le> 2" by simp
    with h r show ?thesis unfolding fl by (simp add: w)
  next
    assume h: "rne (of_int M / 5) = \<lfloor>of_int M / 5 :: rat\<rfloor> + 1 \<and>
      1 / 2 \<le> (of_int M / 5 :: rat) - of_int \<lfloor>of_int M / 5 :: rat\<rfloor>"
    then have "5 / 2 \<le> (of_int r :: rat)" by (simp add: ri)
    then have "(of_int 5 :: rat) \<le> of_int (2 * r)" by simp
    then have "5 \<le> 2 * r" by (simp only: of_int_le_iff)
    then have "3 \<le> r" by simp
    then have "(3 :: rat) \<le> of_int r" by linarith
    moreover have "(of_int r :: rat) < 5" using r by simp
    ultimately show ?thesis using h unfolding fl by (simp add: w abs_le_iff)
  qed
qed

lemma two_powi_pos [simp]: "0 < (2::rat) powi e"
  by (simp add: power_int_def)

lemma two_powi_less_iff: "(2::rat) powi a < 2 powi b \<longleftrightarrow> a < b"
  by (metis linorder_not_less one_less_numeral_iff power_int_increasing power_int_strict_increasing
      semiring_norm(76) order_less_imp_le)

lemma two_powi_le_iff: "(2::rat) powi a \<le> 2 powi b \<longleftrightarrow> a \<le> b"
  by (metis linorder_not_less two_powi_less_iff)

lemma two_powi_Suc: "(2::rat) powi (e + 1) = 2 * 2 powi e"
  by (simp add: power_int_add)

lemma expo_bounds:
  assumes "0 < x"
  shows "2 powi expo x \<le> x" and "x < 2 powi (expo x + 1)"
proof -
  have "2 powi expo x \<le> x \<and> x < 2 powi (expo x + 1)"
  proof (cases "1 \<le> x")
    case True
    define a where "a = \<lfloor>x\<rfloor>"
    have a: "1 \<le> a" using True by (simp add: a_def le_floor_iff)
    then have bl: "1 \<le> bitlen a" by (simp add: bitlen_alt_def)
    from bitlen_bounds [of a] a
    have b: "2 ^ nat (bitlen a - 1) \<le> a" "a < 2 ^ nat (bitlen a)" by simp_all
    have e: "expo x = bitlen a - 1" using True by (simp add: expo_def a_def)
    have "(2::rat) powi (bitlen a - 1) = of_int (2 ^ nat (bitlen a - 1))"
      using bl by (simp add: power_int_nonneg_exp)
    also have "\<dots> \<le> of_int a" using b(1) by (simp only: of_int_le_iff)
    also have "\<dots> \<le> x" by (simp add: a_def)
    finally have lo: "2 powi expo x \<le> x" by (simp add: e)
    have "a + 1 \<le> 2 ^ nat (bitlen a)" using b(2) by simp
    then have "(of_int (a + 1) :: rat) \<le> of_int (2 ^ nat (bitlen a))"
      by (simp only: of_int_le_iff)
    moreover have "x < of_int (a + 1)" unfolding a_def by simp linarith
    moreover have "(2::rat) powi (bitlen a) = of_int (2 ^ nat (bitlen a))"
      using bl by (simp add: power_int_nonneg_exp)
    ultimately have "x < 2 powi (expo x + 1)" by (simp add: e)
    with lo show ?thesis by simp
  next
    case False
    then have x1: "x < 1" by simp
    define d where "d = \<lceil>1 / x\<rceil> - 1"
    have inv: "1 < 1 / x" using assms x1 by simp
    have dlt: "of_int d < 1 / x" unfolding d_def by simp linarith
    have dge: "1 / x \<le> of_int d + 1" unfolding d_def by simp
    have d1: "1 \<le> d"
    proof -
      have "1 < \<lceil>1 / x\<rceil>" using inv by (simp add: less_ceiling_iff)
      then show ?thesis by (simp add: d_def)
    qed
    then have bl: "1 \<le> bitlen d" by (simp add: bitlen_alt_def)
    from bitlen_bounds [of d] d1
    have b: "2 ^ nat (bitlen d - 1) \<le> d" "d < 2 ^ nat (bitlen d)" by simp_all
    have e: "expo x = - bitlen d" using False by (simp add: expo_def d_def)
    have p1: "(2::rat) powi (- bitlen d) = 1 / of_int (2 ^ nat (bitlen d))"
      using bl by (simp add: power_int_minus power_int_nonneg_exp field_simps)
    have p2: "(2::rat) powi (1 - bitlen d) = 1 / of_int (2 ^ nat (bitlen d - 1))"
    proof -
      have "1 - bitlen d = - (bitlen d - 1)" by simp
      then show ?thesis
        using bl by (simp only: power_int_minus) (simp add: power_int_nonneg_exp field_simps)
    qed
    have "d + 1 \<le> 2 ^ nat (bitlen d)" using b(2) by simp
    then have "(of_int (d + 1) :: rat) \<le> of_int (2 ^ nat (bitlen d))"
      by (simp only: of_int_le_iff)
    with dge have "1 / x \<le> of_int (2 ^ nat (bitlen d))" by simp
    then have lo: "1 / of_int (2 ^ nat (bitlen d)) \<le> x"
      using assms by (simp add: field_simps)
    have "(of_int (2 ^ nat (bitlen d - 1)) :: rat) \<le> of_int d"
      using b(1) by (simp only: of_int_le_iff)
    then have "(2::rat) ^ nat (bitlen d - 1) \<le> of_int d" by simp
    with dlt have "(2::rat) ^ nat (bitlen d - 1) < 1 / x" by linarith
    then have hi: "x < 1 / of_int (2 ^ nat (bitlen d - 1))"
      using assms by (simp add: field_simps)
    from lo hi show ?thesis by (simp add: e p1 p2)
  qed
  then show "2 powi expo x \<le> x" and "x < 2 powi (expo x + 1)" by simp_all
qed

lemma expo_unique:
  assumes "0 < x" and "2 powi e \<le> x" and "x < 2 powi (e + 1)"
  shows "expo x = e"
proof -
  from expo_bounds [OF assms(1)] assms(2,3)
  have "(2::rat) powi e < 2 powi (expo x + 1)" "(2::rat) powi expo x < 2 powi (e + 1)"
    by simp_all
  then have "e < expo x + 1" "expo x < e + 1"
    by (simp_all only: two_powi_less_iff)
  then show ?thesis by simp
qed

lemma ulp_pos [simp]: "0 < ulp x"
  by (simp add: ulp_def)

lemma ulp_nonneg [simp]: "0 \<le> ulp x"
  using ulp_pos [of x] by (rule less_imp_le)

lemma ulp_nonzero [simp]: "ulp x \<noteq> 0"
  by (metis less_irrefl ulp_pos)

lemma ulp_times: "ulp x * 2 ^ 52 = 2 powi expo x"
proof -
  have "(2::rat) powi (expo x - 52 + 52) = 2 powi (expo x - 52) * 2 powi 52"
    by (rule power_int_add) simp
  then show ?thesis by (simp add: ulp_def)
qed

lemma ulp_bounds:
  assumes "0 < x"
  shows "2 ^ 52 * ulp x \<le> x" and "x < 2 ^ 53 * ulp x"
proof -
  from expo_bounds [OF assms] have "ulp x * 2 ^ 52 \<le> x" "x < 2 * (ulp x * 2 ^ 52)"
    by (simp_all only: ulp_times two_powi_Suc)
  then show "2 ^ 52 * ulp x \<le> x" and "x < 2 ^ 53 * ulp x" by simp_all
qed

lemma ulp_eqI:
  assumes "0 < x" and "2 ^ 52 * (2 powi k) \<le> x" and "x < 2 ^ 53 * (2 powi k)"
  shows "ulp x = 2 powi k"
proof -
  have a: "(2::rat) powi (k + 52) = 2 ^ 52 * 2 powi k"
    by (simp add: power_int_add)
  have b: "(2::rat) powi (k + 52 + 1) = 2 ^ 53 * 2 powi k"
    by (simp add: power_int_add)
  have "expo x = k + 52"
    using assms by (intro expo_unique) (simp_all only: a b)
  then show ?thesis by (simp add: ulp_def)
qed

lemma fl_pos_eq: "0 < x \<Longrightarrow> fl x = of_int (rne (x / ulp x)) * ulp x"
  by (simp add: fl_def)

lemma fl_err:
  assumes "0 < x"
  shows "\<bar>fl x - x\<bar> \<le> ulp x / 2"
proof -
  have "fl x - x = (of_int (rne (x / ulp x)) - x / ulp x) * ulp x"
    using assms by (simp add: fl_pos_eq algebra_simps)
  then have "\<bar>fl x - x\<bar> = \<bar>of_int (rne (x / ulp x)) - x / ulp x\<bar> * ulp x"
    by (simp add: abs_mult)
  also have "\<dots> \<le> 1 / 2 * ulp x"
    by (intro mult_right_mono rne_err) simp
  finally show ?thesis by simp
qed

lemma fl_rel:
  assumes "0 < x"
  shows "\<bar>fl x - x\<bar> \<le> x / 2 ^ 53"
proof -
  from ulp_bounds(1) [OF assms] have "ulp x / 2 \<le> x / 2 ^ 53" by simp
  with fl_err [OF assms] show ?thesis by linarith
qed

lemma fl_ge_binade:
  assumes "0 < x"
  shows "2 ^ 52 * ulp x \<le> fl x"
proof -
  have "(of_int (2 ^ 52) :: rat) \<le> x / ulp x"
    using ulp_bounds(1) [OF assms] by (simp add: field_simps)
  then have "2 ^ 52 \<le> rne (x / ulp x)" by (rule rne_ge)
  then have "(of_int (2 ^ 52) :: rat) \<le> of_int (rne (x / ulp x))"
    by (simp only: of_int_le_iff)
  then have "2 ^ 52 * ulp x \<le> of_int (rne (x / ulp x)) * ulp x"
    by (intro mult_right_mono) simp_all
  then show ?thesis using assms by (simp add: fl_pos_eq)
qed

lemma fl_pos: "0 < x \<Longrightarrow> 0 < fl x"
  using fl_ge_binade [of x] ulp_pos [of x]
  by (meson less_le_trans mult_pos_pos zero_less_numeral zero_less_power)

lemma fl_mono_ge:
  assumes "representable r" and "r \<le> z"
  shows "r \<le> fl z"
proof -
  from assms(1) obtain i :: int where r: "0 < r" "r = of_int i * ulp r"
    by (auto simp: representable_def)
  then have z: "0 < z" using assms(2) by simp
  have "(2::rat) powi expo r \<le> r" by (rule expo_bounds(1) [OF r(1)])
  also have "r \<le> z" by fact
  also have "z < 2 powi (expo z + 1)" by (rule expo_bounds(2) [OF z])
  finally have "expo r < expo z + 1" by (simp only: two_powi_less_iff)
  then consider "expo z = expo r" | "expo r + 1 \<le> expo z" by linarith
  then show ?thesis
  proof cases
    case 1
    then have u: "ulp z = ulp r" by (simp add: ulp_def)
    have "of_int i \<le> z / ulp r"
      using assms(2) r(2) by (simp add: field_simps)
    then have "i \<le> rne (z / ulp r)" by (rule rne_ge)
    then have "(of_int i :: rat) \<le> of_int (rne (z / ulp r))" by (simp only: of_int_le_iff)
    then have "of_int i * ulp r \<le> of_int (rne (z / ulp r)) * ulp r"
      by (intro mult_right_mono) simp_all
    then show ?thesis using z r(2) by (simp add: fl_pos_eq u)
  next
    case 2
    have "r < 2 powi (expo r + 1)" by (rule expo_bounds(2) [OF r(1)])
    also have "\<dots> \<le> 2 powi expo z" using 2 by (simp only: two_powi_le_iff)
    also have "\<dots> = 2 ^ 52 * ulp z" by (simp add: ulp_times [symmetric])
    also have "\<dots> \<le> fl z" by (rule fl_ge_binade [OF z])
    finally show ?thesis by simp
  qed
qed

lemma fl_exact:
  assumes "representable r"
  shows "fl r = r"
proof -
  from assms obtain i :: int where r: "0 < r" "r = of_int i * ulp r"
    by (auto simp: representable_def)
  have "r / ulp r = of_int i" by (subst r(2)) simp
  then have "rne (r / ulp r) = i" by simp
  then show ?thesis using r by (simp add: fl_pos_eq)
qed

lemma two_powi_add_nat: "(2::rat) powi (a + int n) = 2 powi a * 2 ^ n"
  by (simp add: power_int_add)

lemma two_powi_sub_nat: "(2::rat) powi (a - int n) = 2 powi a / 2 ^ n"
  by (simp add: power_int_diff)

lemma two_powi_up: "b = a + int n \<Longrightarrow> (2::rat) powi b = 2 powi a * 2 ^ n"
  by (simp add: two_powi_add_nat)

lemma two_powi_down: "b = a - int n \<Longrightarrow> (2::rat) powi b = 2 powi a / 2 ^ n"
  by (simp add: two_powi_sub_nat)

lemma scaled_int_ulp:
  assumes "x = of_int j * 2 powi s" and "expo x \<le> 52 + s"
  shows "x = of_int (j * 2 ^ nat (52 + s - expo x)) * ulp x"
proof -
  have "(2::rat) ^ nat (52 + s - expo x) = 2 powi (52 + s - expo x)"
    using assms(2) by (simp add: power_int_nonneg_exp)
  moreover have "(2::rat) powi (52 + s - expo x) * 2 powi (expo x - 52) = 2 powi s"
    by (simp flip: power_int_add)
  ultimately show ?thesis
    by (simp add: ulp_def assms(1) mult.assoc)
qed

lemma expo_less: "0 < x \<Longrightarrow> x < 2 powi k \<Longrightarrow> expo x < k"
  using expo_bounds(1) [of x] two_powi_less_iff [of "expo x" k] by simp

lemma expo_ge: "0 < x \<Longrightarrow> 2 powi k \<le> x \<Longrightarrow> k \<le> expo x"
  using expo_bounds(2) [of x] two_powi_less_iff [of k "expo x + 1"] by simp

lemma representable_int:
  assumes "0 < i" and "i < 2 ^ 53"
  shows "representable (of_int i)"
proof -
  have pos: "(0::rat) < of_int i" using assms(1) by simp
  have "(of_int i :: rat) < of_int (2 ^ 53)" using assms(2) by (simp only: of_int_less_iff)
  then have "(of_int i :: rat) < 2 powi 53" by simp
  then have "expo (of_int i) < 53" by (rule expo_less [OF pos])
  then have "expo (of_int i) \<le> 52 + 0" by simp
  have "(of_int i :: rat) = of_int i * 2 powi 0" by simp
  from scaled_int_ulp [OF this \<open>expo (of_int i) \<le> 52 + 0\<close>] pos show ?thesis
    unfolding representable_def by blast
qed

lemma fl_of_int:
  assumes "0 \<le> i" and "i < 2 ^ 53"
  shows "fl (of_int i) = of_int i"
proof (cases "i = 0")
  case True
  then show ?thesis by (simp add: fl_def)
next
  case False
  with assms show ?thesis by (intro fl_exact representable_int) simp_all
qed

lemma fl_half_ulp_even:
  assumes z: "0 < z" and u: "ulp z = V" and Y: "even Y"
    and lo: "(of_int Y - 1 / 2) * V \<le> z"
  shows "of_int Y * V \<le> fl z"
proof -
  have V: "0 < V" using u ulp_pos [of z] by simp
  have "of_int Y - 1 / 2 \<le> z / V" using lo V by (simp add: field_simps)
  then have "Y \<le> rne (z / V)" by (rule rne_half_even [OF Y])
  then have "(of_int Y :: rat) \<le> of_int (rne (z / V))" by (simp only: of_int_le_iff)
  then have "of_int Y * V \<le> of_int (rne (z / V)) * V"
    using V by (intro mult_right_mono) simp_all
  then show ?thesis using z u by (simp add: fl_pos_eq)
qed

lemma tie_case:
  fixes j :: int
  assumes j: "0 < j" "odd j" "j < 2 ^ 51"
  shows "of_int j / 2 \<le> fl (fl (of_int j / 2 / 10) * 10)"
proof -
  define y :: rat where "y = of_int j / 2"
  define x where "x = y / 10"
  define e where "e = expo y"
  define U where "U = ulp y"
  define Uq where "Uq = ulp x"
  define z where "z = fl x * 10"
  have ypos: "0 < y" using j(1) by (simp add: y_def)
  have xpos: "0 < x" using ypos by (simp add: x_def)
  have Upos: "0 < U" by (simp add: U_def)
  have Udef: "U = 2 powi (e - 52)" by (simp add: U_def ulp_def e_def)
  have "(of_int j :: rat) < of_int (2 ^ 51)" using j(3) by (simp only: of_int_less_iff)
  then have "y < 2 powi 50" by (simp add: y_def)
  then have e50: "e < 50" unfolding e_def by (rule expo_less [OF ypos])
  define Y where "Y = j * 2 ^ nat (51 - e)"
  have "y = of_int j * 2 powi (- 1)" by (simp add: y_def power_int_minus)
  moreover have "expo y \<le> 52 + (- 1)" using e50 by (simp add: e_def)
  ultimately have "y = of_int (j * 2 ^ nat (52 + (- 1) - expo y)) * ulp y"
    by (rule scaled_int_ulp)
  then have yY: "y = of_int Y * U" by (simp add: Y_def U_def e_def)
  have "nat (51 - e) \<noteq> 0" using e50 by simp
  then have evenY: "even Y" by (simp add: Y_def)
  have rep: "representable y"
    unfolding representable_def
    by (intro conjI exI [of _ Y]) (rule ypos, rule yY [unfolded U_def])
  have Y52: "2 ^ 52 \<le> Y"
  proof -
    from ulp_bounds(1) [OF ypos] have "2 ^ 52 * U \<le> y"
      by (simp only: U_def)
    also have "y = of_int Y * U" by (rule yY)
    finally have "2 ^ 52 * U \<le> of_int Y * U" .
    then have "(2 ^ 52 :: rat) \<le> of_int Y" using Upos by simp
    then have "(of_int (2 ^ 52) :: rat) \<le> of_int Y" by simp
    then show ?thesis by (simp only: of_int_le_iff)
  qed
  have ylt: "y < 2 ^ 53 * U" using ulp_bounds(2) [OF ypos] by (simp only: U_def)
  have p3: "(2::rat) powi (e + 1) = 2 powi (e - 2) * 2 ^ 3"
    by (rule two_powi_up) simp
  define P :: rat where "P = 2 powi (e - 2)"
  have Ppos: "0 < P" by (simp add: P_def)
  have "y < 2 powi (e + 1)" unfolding e_def by (rule expo_bounds(2) [OF ypos])
  then have "y < P * 8" by (simp add: p3 P_def)
  with Ppos have "y < P * 10" by linarith
  then have "x < 2 powi (e - 2)" by (simp add: x_def P_def)
  then have ex: "expo x < e - 2" by (rule expo_less [OF xpos])
  have Uq8: "8 * Uq \<le> U"
  proof -
    have "expo x - 52 \<le> e - 55" using ex by simp
    then have "Uq \<le> 2 powi (e - 55)"
      unfolding Uq_def ulp_def by (simp only: two_powi_le_iff)
    moreover have "(2::rat) powi (e - 55) = U / 2 ^ 3"
      unfolding Udef by (rule two_powi_down) simp
    ultimately show ?thesis by simp
  qed
  define M where "M = j * 2 ^ nat (50 - expo x)"
  have "y / 2 = of_int j * 2 powi (- 2)" by (simp add: y_def power_int_minus)
  have xM: "x / Uq = of_int M / 5"
  proof -
    have k: "(2::rat) ^ nat (50 - expo x) = 2 powi (50 - expo x)"
      using ex e50 by (simp add: power_int_nonneg_exp)
    have "(2::rat) powi (50 - expo x) * 2 powi (expo x - 52) = 2 powi (- 2)"
      by (simp flip: power_int_add)
    then have "of_int M * Uq = of_int j / 4"
      by (simp add: M_def Uq_def ulp_def k mult.assoc power_int_minus)
    then have "of_int M * Uq / 5 = x" by (simp add: x_def y_def)
      (simp add: mult.commute mult.left_commute)
    then show ?thesis by (simp add: field_simps Uq_def)
  qed
  have qerr: "\<bar>fl x - x\<bar> \<le> 2 / 5 * Uq"
  proof -
    have "fl x - x = (of_int (rne (x / Uq)) - x / Uq) * Uq"
      using xpos by (simp add: fl_pos_eq Uq_def algebra_simps)
    then have "fl x - x = (of_int (rne (of_int M / 5)) - (of_int M / 5 :: rat)) * Uq"
      by (simp only: xM)
    then have "\<bar>fl x - x\<bar> = \<bar>of_int (rne (of_int M / 5)) - (of_int M / 5 :: rat)\<bar> * Uq"
      by (simp add: abs_mult Uq_def)
    also have "\<dots> \<le> 2 / 5 * Uq"
      by (intro mult_right_mono rne_fifths) (simp add: Uq_def)
    finally show ?thesis .
  qed
  have zerr: "\<bar>z - y\<bar> \<le> 4 * Uq"
  proof -
    have "z - y = (fl x - x) * 10" by (simp add: z_def x_def algebra_simps)
    then have "\<bar>z - y\<bar> = \<bar>fl x - x\<bar> * \<bar>10\<bar>" by (simp only: abs_mult)
    then have "\<bar>z - y\<bar> = \<bar>fl x - x\<bar> * 10" by simp
    with qerr show ?thesis by simp
  qed
  have zpos: "0 < z" using fl_pos [OF xpos] by (simp add: z_def)
  have "y \<le> fl z"
  proof (cases "y \<le> z")
    case True
    with rep show ?thesis by (rule fl_mono_ge)
  next
    case False
    then have zlt: "z < y" by simp
    show ?thesis
    proof (cases "Y = 2 ^ 52")
      case False
      with Y52 have "2 ^ 52 + 1 \<le> Y" by simp
      then have "(of_int (2 ^ 52 + 1) :: rat) \<le> of_int Y" by (simp only: of_int_le_iff)
      then have Yr: "(2 ^ 52 + 1 :: rat) \<le> of_int Y" by simp
      have zlo: "(of_int Y - 1 / 2) * U \<le> z"
        using zerr Uq8 zlt by (simp add: yY algebra_simps abs_le_iff)
      have "2 ^ 52 * U \<le> (of_int Y - 1 / 2) * U"
        using Yr Upos by (intro mult_right_mono) simp_all
      from this zlo have "2 ^ 52 * U \<le> z" by (rule order_trans)
      then have "2 ^ 52 * (2 powi (e - 52)) \<le> z" by (simp only: Udef)
      moreover have "z < 2 ^ 53 * U" using zlt ylt by (rule less_trans)
      then have "z < 2 ^ 53 * (2 powi (e - 52))" by (simp only: Udef)
      ultimately have "ulp z = 2 powi (e - 52)" by (rule ulp_eqI [OF zpos])
      then have "ulp z = U" by (simp add: Udef)
      from fl_half_ulp_even [OF zpos this evenY zlo] show ?thesis by (simp add: yY)
    next
      case True
      then have y2: "y = 2 ^ 52 * U" by (simp add: yY)
      have "(2::rat) powi e = 2 powi (e - 52) * 2 ^ 52"
        by (rule two_powi_up) simp
      then have ye: "y = 2 powi e" by (simp add: y2 Udef)
      have p4: "(2::rat) powi (e - 4) = y / 2 ^ 4"
        unfolding ye by (rule two_powi_down) simp
      have p3': "(2::rat) powi (e - 4 + 1) = y / 2 ^ 3"
        unfolding ye by (rule two_powi_down) simp
      have "expo x = e - 4"
      proof (rule expo_unique [OF xpos])
        show "2 powi (e - 4) \<le> x" unfolding p4 using ypos by (simp add: x_def)
        show "x < 2 powi (e - 4 + 1)" unfolding p3' using ypos by (simp add: x_def)
      qed
      then have "Uq = 2 powi (e - 4 - 52)" by (simp only: Uq_def ulp_def)
      also have "\<dots> = U / 2 ^ 4"
        unfolding Udef by (rule two_powi_down) simp
      finally have Uq16: "Uq = U / 2 ^ 4" .
      define V where "V = U / 2"
      have "(2::rat) powi (e - 53) = U / 2 ^ 1"
        unfolding Udef by (rule two_powi_down) simp
      then have Vdef: "V = 2 powi (e - 53)" by (simp add: V_def)
      have zlo: "(of_int (2 ^ 53) - 1 / 2) * V \<le> z"
        using zerr zlt by (simp add: y2 Uq16 V_def algebra_simps abs_le_iff)
      have "2 ^ 52 * V \<le> (of_int (2 ^ 53) - 1 / 2) * V"
        using Upos by (intro mult_right_mono) (simp_all add: V_def)
      from this zlo have "2 ^ 52 * V \<le> z" by (rule order_trans)
      then have "2 ^ 52 * (2 powi (e - 53)) \<le> z" by (simp only: Vdef)
      moreover have "z < 2 ^ 53 * V" using zlt by (simp add: y2 V_def)
      then have "z < 2 ^ 53 * (2 powi (e - 53))" by (simp only: Vdef)
      ultimately have "ulp z = 2 powi (e - 53)" by (rule ulp_eqI [OF zpos])
      then have "ulp z = V" by (simp add: Vdef)
      from fl_half_ulp_even [OF zpos this _ zlo] show ?thesis
        by (simp add: y2 V_def)
    qed
  qed
  then show ?thesis by (simp add: z_def x_def y_def)
qed

lemma round_tenths_exact:
  fixes t :: int and n :: nat
  assumes t: "0 \<le> t" "t < 2 ^ 46" and n: "0 < n"
  shows "\<lfloor>fl (fl (of_int t / of_nat n) * 10) + 1 / 2\<rfloor> = \<lfloor>of_int t / of_nat n * 10 + 1 / 2 :: rat\<rfloor>"
proof (cases "t = 0")
  case True
  then show ?thesis by (simp add: fl_def)
next
  case False
  with t have tpos: "0 < t" by simp
  define T :: rat where "T = of_int t"
  define N :: rat where "N = of_nat n"
  define x where "x = T / N"
  define y where "y = x * 10"
  define z where "z = fl x * 10"
  define p where "p = fl z"
  define m where "m = \<lfloor>y + 1 / 2\<rfloor>"
  have Tpos: "0 < T" using tpos by (simp add: T_def)
  have Npos: "0 < N" using n by (simp add: N_def)
  have N1: "1 \<le> N" using n by (simp add: N_def)
  have xpos: "0 < x" using Tpos Npos by (simp add: x_def)
  have ypos: "0 < y" using xpos by (simp add: y_def)
  have zpos: "0 < z" using fl_pos [OF xpos] by (simp add: z_def)
  have yN: "y * N = 10 * T" using Npos by (simp add: y_def x_def)
  have yN': "N * y = 10 * T" using yN by (simp add: mult.commute)
  have "(of_int t :: rat) < of_int (2 ^ 46)" using t(2) by (simp only: of_int_less_iff)
  then have T46: "T < 2 ^ 46" by (simp add: T_def)
  have c53: "(2::rat) ^ 53 = 9007199254740992" by simp
  from fl_rel [OF xpos] have qx: "\<bar>fl x - x\<bar> \<le> x / 9007199254740992"
    by (simp only: c53)
  have q1: "fl x - x \<le> x / 9007199254740992" using qx by (rule abs_le_D1)
  have q2: "- (fl x - x) \<le> x / 9007199254740992" using qx by (rule abs_le_D2)
  from fl_rel [OF zpos] have pz: "\<bar>p - z\<bar> \<le> z / 9007199254740992"
    by (simp only: c53 p_def)
  have p1: "p - z \<le> z / 9007199254740992" using pz by (rule abs_le_D1)
  have p2: "- (p - z) \<le> z / 9007199254740992" using pz by (rule abs_le_D2)
  have zx: "z = fl x * 10" "y = x * 10" by (simp_all add: z_def y_def)
  have py1: "p - y \<le> 3 * y / 9007199254740992"
    using q1 p1 zx xpos by linarith
  have py2: "- (p - y) \<le> 3 * y / 9007199254740992"
    using q2 p2 zx xpos by linarith
  have "3 * (y * N) / 9007199254740992 < 1 / 2" using T46 by (simp add: yN)
  then have "3 * y / 9007199254740992 * N < 1 / 2" by (simp add: algebra_simps)
  then have small: "3 * y / 9007199254740992 < 1 / (2 * N)"
    using Npos by (simp add: field_simps)
  have m_lo: "of_int m - 1 / 2 \<le> y" and m_hi: "y < of_int m + 1 / 2"
    unfolding m_def by linarith+
  have up: "y + 1 / (2 * N) \<le> of_int m + 1 / 2"
  proof -
    from m_hi have "y * N < (of_int m + 1 / 2) * N" using Npos by simp
    then have "20 * T < (2 * of_int m + 1) * N" by (simp add: yN' algebra_simps)
    then have "(of_int (20 * t) :: rat) < of_int ((2 * m + 1) * int n)"
      by (simp add: T_def N_def)
    then have "20 * t < (2 * m + 1) * int n" by (simp only: of_int_less_iff)
    then have "20 * t + 1 \<le> (2 * m + 1) * int n" by simp
    then have "(of_int (20 * t + 1) :: rat) \<le> of_int ((2 * m + 1) * int n)"
      by (simp only: of_int_le_iff)
    then have "20 * T + 1 \<le> (2 * of_int m + 1) * N" by (simp add: T_def N_def)
    then have "2 * (y * N) + 1 \<le> (2 * of_int m + 1) * N" by (simp add: yN)
    then have "(2 * (y * N) + 1) / (2 * N) \<le> ((2 * of_int m + 1) * N) / (2 * N)"
      using Npos by (intro divide_right_mono) simp_all
    moreover have "(2 * (y * N) + 1) / (2 * N) = y + 1 / (2 * N)"
      using Npos by (simp add: add_divide_distrib)
    moreover have "((2 * of_int m + 1) * N) / (2 * N) = of_int m + 1 / 2"
      using Npos by (simp add: add_divide_distrib)
    ultimately show ?thesis by simp
  qed
  have p_hi: "p < of_int m + 1 / 2"
    using py1 small up by linarith
  have p_lo: "of_int m - 1 / 2 \<le> p"
  proof (cases "y = of_int m - 1 / 2")
    case False
    with m_lo have lt: "of_int m - 1 / 2 < y" by simp
    have "of_int m - 1 / 2 + 1 / (2 * N) \<le> y"
    proof -
      from lt have "(of_int m - 1 / 2) * N < y * N" using Npos by simp
      then have "(2 * of_int m - 1) * N < 20 * T" by (simp add: yN' algebra_simps)
      then have "(of_int ((2 * m - 1) * int n) :: rat) < of_int (20 * t)"
        by (simp add: T_def N_def)
      then have "(2 * m - 1) * int n < 20 * t" by (simp only: of_int_less_iff)
      then have "(2 * m - 1) * int n + 1 \<le> 20 * t" by simp
      then have "(of_int ((2 * m - 1) * int n + 1) :: rat) \<le> of_int (20 * t)"
        by (simp only: of_int_le_iff)
      then have "(2 * of_int m - 1) * N + 1 \<le> 20 * T" by (simp add: T_def N_def)
      then have "(2 * of_int m - 1) * N + 1 \<le> 2 * (y * N)" by (simp add: yN)
      then have "((2 * of_int m - 1) * N + 1) / (2 * N) \<le> (2 * (y * N)) / (2 * N)"
        using Npos by (intro divide_right_mono) simp_all
      moreover have "(2 * (y * N)) / (2 * N) = y"
        using Npos by simp
      moreover have "((2 * of_int m - 1) * N + 1) / (2 * N) = of_int m - 1 / 2 + 1 / (2 * N)"
        using Npos by (simp add: add_divide_distrib diff_divide_distrib)
      ultimately show ?thesis by simp
    qed
    with py2 small show ?thesis by linarith
  next
    case True
    define j where "j = 2 * m - 1"
    have yj: "y = of_int j / 2" by (simp add: True j_def)
    have "0 < (of_int j :: rat)" using ypos by (simp add: yj)
    then have j0: "0 < j" by simp
    have "y \<le> 10 * T"
    proof -
      have "y * 1 \<le> y * N" using N1 ypos by (intro mult_left_mono) simp_all
      then show ?thesis by (simp add: yN)
    qed
    with T46 have "of_int j < (2 ^ 51 :: rat)" by (simp add: yj)
    then have "(of_int j :: rat) < of_int (2 ^ 51)" by simp
    then have j51: "j < 2 ^ 51" by (simp only: of_int_less_iff)
    have "odd j" by (simp add: j_def)
    from tie_case [OF j0 this j51] have "y \<le> fl (fl (y / 10) * 10)" by (simp only: yj)
    moreover have "y / 10 = x" by (simp add: y_def)
    ultimately show ?thesis by (simp add: p_def z_def True)
  qed
  have "\<lfloor>p + 1 / 2\<rfloor> = m"
    using p_lo p_hi by (intro floor_unique) simp_all
  then show ?thesis by (simp add: p_def z_def m_def y_def x_def T_def N_def)
qed

section \<open>Sums and averages within the range\<close>

lemma fl_minus: "fl (- x) = - fl x"
  by (simp add: fl_def)

lemma fl_of_int_abs:
  assumes "\<bar>i\<bar> < 2 ^ 53"
  shows "fl (of_int i) = of_int i"
proof (cases "0 \<le> i")
  case True
  with assms show ?thesis by (intro fl_of_int) simp_all
next
  case False
  with assms have "fl (of_int (- i)) = of_int (- i)" by (intro fl_of_int) simp_all
  then have "fl (- of_int i) = - of_int i" by simp
  then show ?thesis by (simp only: fl_minus)
qed

lemma round_one_decimal_exact:
  fixes t :: int and n :: nat
  assumes "0 \<le> t" and "t < 2 ^ 46" and "0 < n"
  shows "round_one_decimal (fl (of_int t / of_nat n)) = fl (round_to_tenth (of_int t / of_nat n))"
  unfolding round_one_decimal_def Math_round_def round_to_tenth_def
  by (simp only: round_tenths_exact [OF assms])

lemma round_to_tenth_near:
  "x - 1 / 20 < round_to_tenth x" "round_to_tenth x \<le> x + 1 / 20"
proof -
  let ?y = "x * 10 + 1 / 2"
  have lo: "of_int \<lfloor>?y\<rfloor> \<le> ?y" by (rule of_int_floor_le)
  have hi: "?y < of_int \<lfloor>?y\<rfloor> + 1" by linarith
  show "x - 1 / 20 < round_to_tenth x"
    using hi unfolding round_to_tenth_def by (simp add: field_simps)
  show "round_to_tenth x \<le> x + 1 / 20"
    using lo unfolding round_to_tenth_def by (simp add: field_simps)
qed

lemma points_total_nonneg:
  "\<forall>g \<in> set xs. 0 \<le> AwayTeamScore g \<and> 0 \<le> HomeTeamScore g \<Longrightarrow> 0 \<le> points_total xs"
  unfolding points_total_def by (induction xs) auto

lemma foldl_points_exact:
  assumes "0 \<le> a"
    and "\<forall>g \<in> set xs. 0 \<le> AwayTeamScore g \<and> 0 \<le> HomeTeamScore g"
    and "a + points_total xs < 2 ^ 53"
  shows "foldl (\<lambda>sum game. fl (fl (sum + of_int (AwayTeamScore game)) + of_int (HomeTeamScore game)))
           (of_int a) xs = of_int (a + points_total xs)"
  using assms
proof (induction xs arbitrary: a)
  case Nil
  then show ?case by (simp add: points_total_def)
next
  case (Cons g xs)
  have nn: "0 \<le> AwayTeamScore g" "0 \<le> HomeTeamScore g" "0 \<le> points_total xs"
    using Cons.prems(2) points_total_nonneg [of xs] by simp_all
  have tot: "points_total (g # xs) = AwayTeamScore g + HomeTeamScore g + points_total xs"
    by (simp add: points_total_def)
  have b: "a + AwayTeamScore g + HomeTeamScore g + points_total xs < 2 ^ 53"
    using Cons.prems(3) by (simp add: tot)
  have "fl (of_int (a + AwayTeamScore g)) = of_int (a + AwayTeamScore g)"
    using Cons.prems(1) nn b by (intro fl_of_int) simp_all
  then have 1: "fl (of_int a + of_int (AwayTeamScore g)) = of_int (a + AwayTeamScore g)"
    by simp
  have "fl (of_int (a + AwayTeamScore g + HomeTeamScore g)) = of_int (a + AwayTeamScore g + HomeTeamScore g)"
    using Cons.prems(1) nn b by (intro fl_of_int) simp_all
  then have 2: "fl (of_int (a + AwayTeamScore g) + of_int (HomeTeamScore g)) =
      of_int (a + AwayTeamScore g + HomeTeamScore g)"
    by simp
  let ?F = "\<lambda>sum game. fl (fl (sum + of_int (AwayTeamScore game)) + of_int (HomeTeamScore game))"
  have step: "?F (of_int a) g = of_int (a + AwayTeamScore g + HomeTeamScore g)"
    by (simp only: 1 2)
  have "foldl ?F (of_int a) (g # xs) = foldl ?F (of_int (a + AwayTeamScore g + HomeTeamScore g)) xs"
    by (simp only: foldl_Cons step)
  also have "\<dots> = of_int (a + AwayTeamScore g + HomeTeamScore g + points_total xs)"
    using Cons.prems(1,2) nn b by (intro Cons.IH) simp_all
  also have "\<dots> = of_int (a + points_total (g # xs))"
    by (simp add: tot)
  finally show ?case .
qed

lemma modest_completed:
  assumes "modest_scores gs"
  shows "\<forall>g \<in> set (completedGames gs). 0 \<le> AwayTeamScore g \<and> 0 \<le> HomeTeamScore g"
    and "points_total (completedGames gs) < 2 ^ 46"
  using assms by (auto simp: modest_scores_def completedGames_def)

lemma totalPoints_exact:
  assumes "modest_scores gs"
  shows "totalPoints gs = of_int (points_total (completedGames gs))"
proof -
  have "points_total (completedGames gs) < 2 ^ 53"
    using modest_completed(2) [OF assms] by simp
  with foldl_points_exact [of 0 "completedGames gs"] modest_completed(1) [OF assms]
  show ?thesis by (simp add: totalPoints_def)
qed

lemma avgPointsPerGame_exact:
  assumes "modest_scores gs" and "completedGames gs \<noteq> []"
  shows "avgPointsPerGame gs =
           fl (round_to_tenth (of_int (points_total (completedGames gs)) /
                               of_nat (length (completedGames gs))))"
proof -
  have "0 \<le> points_total (completedGames gs)"
    using modest_completed(1) [OF assms(1)] by (rule points_total_nonneg)
  with modest_completed(2) [OF assms(1)] assms(2) show ?thesis
    by (simp add: avgPointsPerGame_def totalPoints_exact [OF assms(1)] round_one_decimal_exact)
qed

lemma margin_exact:
  assumes "\<bar>a - b\<bar> < 2 ^ 53"
  shows "\<bar>fl (of_int a - of_int b)\<bar> = of_int \<bar>a - b\<bar>"
proof -
  have "fl (of_int (a - b)) = of_int (a - b)" using assms by (rule fl_of_int_abs)
  then show ?thesis by simp
qed

section \<open>Average points per game\<close>

text \<open>
  Claim C1, for scores in the range \<open>modest_scores\<close>. The statistics computation returns an
  average that is exactly 0 when the batch has no record whose status is \<^verbatim>\<open>Final\<close>.
  Otherwise, with the mean taken as the sum of both teams' scores over the \<^verbatim>\<open>Final\<close>
  records divided by their number, the average is the double of the decimal \<open>k / 10\<close>,
  where \<open>k / 10\<close> is the mean rounded to one decimal place: it lies within one twentieth
  of the mean, a tie going up.
\<close>

theorem avgPointsPerGame_rounded_mean:
  assumes "modest_scores gs"
  shows
   "let fs = filter (\<lambda>g. Status g = ''Final'') gs;
        mean = (of_int (\<Sum>g\<leftarrow>fs. AwayTeamScore g + HomeTeamScore g) :: rat) / of_nat (length fs);
        avg = st_avgPointsPerGame (calculateTournamentStats gs)
    in (fs = [] \<longrightarrow> avg = 0) \<and>
       (fs \<noteq> [] \<longrightarrow>
          (\<exists>k::int. avg = fl (of_int k / 10) \<and>
             mean - 1 / 20 < of_int k / 10 \<and> of_int k / 10 \<le> mean + 1 / 20))"
proof -
  define fs where "fs = filter (\<lambda>g. Status g = ''Final'') gs"
  define mean :: rat where
    "mean = of_int (\<Sum>g\<leftarrow>fs. AwayTeamScore g + HomeTeamScore g) / of_nat (length fs)"
  have fs: "completedGames gs = fs" by (simp add: fs_def completedGames_def)
  have avg: "st_avgPointsPerGame (calculateTournamentStats gs) = avgPointsPerGame gs"
    by (simp add: calculateTournamentStats_def)
  have empty: "fs = [] \<longrightarrow> avgPointsPerGame gs = 0"
    by (simp add: avgPointsPerGame_def fs)
  have full: "fs \<noteq> [] \<longrightarrow>
      (\<exists>k::int. avgPointsPerGame gs = fl (of_int k / 10) \<and>
         mean - 1 / 20 < of_int k / 10 \<and> of_int k / 10 \<le> mean + 1 / 20)"
  proof
    assume ne: "fs \<noteq> []"
    then have "avgPointsPerGame gs = fl (round_to_tenth mean)"
      using avgPointsPerGame_exact [OF assms] by (simp add: fs mean_def points_total_def)
    then have "avgPointsPerGame gs = fl (of_int \<lfloor>mean * 10 + 1 / 2\<rfloor> / 10)"
      by (simp add: round_to_tenth_def)
    moreover have "mean - 1 / 20 < of_int \<lfloor>mean * 10 + 1 / 2\<rfloor> / 10"
      "of_int \<lfloor>mean * 10 + 1 / 2\<rfloor> / 10 \<le> mean + 1 / 20"
      using round_to_tenth_near [of mean] by (simp_all add: round_to_tenth_def)
    ultimately show "\<exists>k::int. avgPointsPerGame gs = fl (of_int k / 10) \<and>
         mean - 1 / 20 < of_int k / 10 \<and> of_int k / 10 \<le> mean + 1 / 20"
      by blast
  qed
  from empty full show ?thesis
    unfolding Let_def avg fs_def [symmetric] mean_def [symmetric] by blast
qed

lemma mock_completed:
  "filter (\<lambda>g. Status g = ''Final'') getMockTournamentData = take 2 getMockTournamentData"
  by (simp add: getMockTournamentData_def)

lemma mock_modest: "modest_scores getMockTournamentData"
  unfolding modest_scores_def mock_completed
  by (simp add: getMockTournamentData_def points_total_def)

theorem avgPointsPerGame_rounded_mean_witness:
  "modest_scores getMockTournamentData \<and>
   st_avgPointsPerGame (calculateTournamentStats getMockTournamentData) = 130 \<and>
   modest_scores [] \<and>
   st_avgPointsPerGame (calculateTournamentStats []) = 0"
proof -
  have e: "modest_scores []" by (simp add: modest_scores_def points_total_def)
  from avgPointsPerGame_rounded_mean [OF e]
  have zero: "st_avgPointsPerGame (calculateTournamentStats []) = 0" by simp
  from avgPointsPerGame_rounded_mean [OF mock_modest]
  obtain k :: int where k: "st_avgPointsPerGame (calculateTournamentStats getMockTournamentData)
        = fl (of_int k / 10)"
      "(130::rat) - 1 / 20 < of_int k / 10" "(of_int k / 10 :: rat) \<le> 130 + 1 / 20"
    unfolding Let_def mock_completed by (auto simp: getMockTournamentData_def)
  from k(2) have "(of_int 1299 :: rat) < of_int k" by simp
  then have "1299 < k" by (simp only: of_int_less_iff)
  moreover from k(3) have "(of_int k :: rat) \<le> of_int 1300" by simp
  then have "k \<le> 1300" by (simp only: of_int_le_iff)
  ultimately have "k = 1300" by simp
  then have "st_avgPointsPerGame (calculateTournamentStats getMockTournamentData) = fl (of_int 130)"
    using k(1) by simp
  also have "\<dots> = of_int 130" by (rule fl_of_int) simp_all
  finally show ?thesis using mock_modest e zero by simp
qed

section \<open>Upsets\<close>



section \<open>Closest games\<close>

lemma filter_take_prefix: "prefix (filter P (take n xs)) (filter P xs)"
proof -
  have "filter P xs = filter P (take n xs) @ filter P (drop n xs)"
    by (metis append_take_drop_id filter_append)
  then show ?thesis by (simp add: prefix_def)
qed

lemma sorted_take_key: "sorted (map f (take n (sort_key f xs)))"
proof -
  have "sorted (take n (map f (sort_key f xs)))"
    by (rule sorted_wrt_take) (rule sorted_sort_key)
  then show ?thesis by (simp add: take_map)
qed

lemma take_sort_key_least:
  assumes "a \<in> set (take n (sort_key f xs))" and "b \<in> set (drop n (sort_key f xs))"
  shows "f a \<le> f b"
proof -
  let ?s = "sort_key f xs"
  have "map f (take n ?s) @ map f (drop n ?s) = map f ?s"
    by (simp flip: map_append)
  then have "sorted (map f (take n ?s) @ map f (drop n ?s))"
    by (simp only: sorted_sort_key)
  then show ?thesis
    using assms by (auto simp: sorted_append)
qed

lemma take_sort_key_stable:
  "prefix (filter (\<lambda>v. f v = k) (take n (sort_key f xs))) (filter (\<lambda>v. f v = k) xs)"
  using filter_take_prefix [of "\<lambda>v. f v = k" n "sort_key f xs"]
  by (simp add: sort_key_stable)

text \<open>
  Claim C6. Every completed game is mapped, in order, to a record holding both scores, the
  margin \<open>|awayScore - homeScore|\<close> (for scores whose difference is below \<open>2^53\<close>, where the
  subtraction is exact), and the winner and loser by the higher score. The
  \<^verbatim>\<open>closestGames\<close> that the statistics computation returns has five entries, or as many as
  there are completed games when these are fewer; it is sorted ascending by margin; its
  entries are records of completed games whose margin is no larger than that of any record
  left out; and it lists the entries of any one margin in the order of the completed games
  they come from.
\<close>

theorem closestGames_sorted_stable_top5:
  "let cs = filter (\<lambda>g. Status g = ''Final'') gs;
       cl = st_closestGames (calculateTournamentStats gs)
   in length (marginOfVictory gs) = length cs \<and>
      (\<forall>i < length cs.
         let g = cs ! i; v = marginOfVictory gs ! i
         in awayScore v = AwayTeamScore g \<and> homeScore v = HomeTeamScore g \<and>
            (\<bar>AwayTeamScore g - HomeTeamScore g\<bar> < 2 ^ 53 \<longrightarrow>
               margin v = of_int \<bar>AwayTeamScore g - HomeTeamScore g\<bar>) \<and>
            (AwayTeamScore g > HomeTeamScore g \<longrightarrow> winner v = AwayTeam g \<and> loser v = HomeTeam g) \<and>
            (HomeTeamScore g > AwayTeamScore g \<longrightarrow> winner v = HomeTeam g \<and> loser v = AwayTeam g)) \<and>
      length cl = min 5 (length cs) \<and>
      sorted (map margin cl) \<and>
      (\<exists>rest. mset cl + mset rest = mset (marginOfVictory gs) \<and>
         (\<forall>a \<in> set cl. \<forall>b \<in> set rest. margin a \<le> margin b)) \<and>
      (\<forall>k. prefix (filter (\<lambda>v. margin v = k) cl)
                  (filter (\<lambda>v. margin v = k) (marginOfVictory gs)))"
proof -
  define cs where "cs = filter (\<lambda>g. Status g = ''Final'') gs"
  define cl where "cl = st_closestGames (calculateTournamentStats gs)"
  let ?s = "sort_key margin (marginOfVictory gs)"
  have cs: "completedGames gs = cs" by (simp add: cs_def completedGames_def)
  have cl: "cl = take 5 ?s"
    by (simp add: cl_def calculateTournamentStats_def closestGames_def)
  have len: "length (marginOfVictory gs) = length cs"
    by (simp add: marginOfVictory_def cs)
  have entries: "\<forall>i < length cs.
         let g = cs ! i; v = marginOfVictory gs ! i
         in awayScore v = AwayTeamScore g \<and> homeScore v = HomeTeamScore g \<and>
            (\<bar>AwayTeamScore g - HomeTeamScore g\<bar> < 2 ^ 53 \<longrightarrow>
               margin v = of_int \<bar>AwayTeamScore g - HomeTeamScore g\<bar>) \<and>
            (AwayTeamScore g > HomeTeamScore g \<longrightarrow> winner v = AwayTeam g \<and> loser v = HomeTeam g) \<and>
            (HomeTeamScore g > AwayTeamScore g \<longrightarrow> winner v = HomeTeam g \<and> loser v = AwayTeam g)"
    by (simp add: marginOfVictory_def cs Let_def margin_exact)
  have five: "length cl = min 5 (length cs)"
    by (simp add: cl len min.commute)
  have srt: "sorted (map margin cl)"
    unfolding cl by (rule sorted_take_key)
  have "mset cl + mset (drop 5 ?s) = mset (marginOfVictory gs)"
    unfolding cl by (metis append_take_drop_id mset_append mset_sort)
  moreover have "\<forall>a \<in> set cl. \<forall>b \<in> set (drop 5 ?s). margin a \<le> margin b"
    unfolding cl by (auto intro: take_sort_key_least)
  ultimately have least: "\<exists>rest. mset cl + mset rest = mset (marginOfVictory gs) \<and>
      (\<forall>a \<in> set cl. \<forall>b \<in> set rest. margin a \<le> margin b)"
    by blast
  have stable: "\<forall>k. prefix (filter (\<lambda>v. margin v = k) cl)
               (filter (\<lambda>v. margin v = k) (marginOfVictory gs))"
    unfolding cl using take_sort_key_stable by blast
  from len entries five srt least stable show ?thesis
    unfolding Let_def cs_def [symmetric] cl_def [symmetric] by blast
qed

theorem closestGames_sorted_stable_top5_witness:
  "(0::nat) < length (filter (\<lambda>g. Status g = ''Final'') getMockTournamentData) \<and>
   margin (marginOfVictory getMockTournamentData ! 0) = 6 \<and>
   winner (marginOfVictory getMockTournamentData ! 0) = ''Colorado'' \<and>
   loser (marginOfVictory getMockTournamentData ! 0) = ''Virginia'' \<and>
   length (st_closestGames (calculateTournamentStats getMockTournamentData)) = 2 \<and>
   sorted (map margin (st_closestGames (calculateTournamentStats getMockTournamentData)))"
proof -
  let ?cs = "filter (\<lambda>g. Status g = ''Final'') getMockTournamentData"
  let ?cl = "st_closestGames (calculateTournamentStats getMockTournamentData)"
  have ev: "(0::nat) < length ?cs" "length ?cs = 2"
      "AwayTeamScore (?cs ! 0) = 57" "HomeTeamScore (?cs ! 0) = 63"
      "HomeTeam (?cs ! 0) = ''Colorado''" "AwayTeam (?cs ! 0) = ''Virginia''"
    unfolding mock_completed by (simp_all add: getMockTournamentData_def)
  from closestGames_sorted_stable_top5 [of getMockTournamentData]
  have ent: "\<forall>i < length ?cs.
         let g = ?cs ! i; v = marginOfVictory getMockTournamentData ! i
         in awayScore v = AwayTeamScore g \<and> homeScore v = HomeTeamScore g \<and>
            (\<bar>AwayTeamScore g - HomeTeamScore g\<bar> < 2 ^ 53 \<longrightarrow>
               margin v = of_int \<bar>AwayTeamScore g - HomeTeamScore g\<bar>) \<and>
            (AwayTeamScore g > HomeTeamScore g \<longrightarrow> winner v = AwayTeam g \<and> loser v = HomeTeam g) \<and>
            (HomeTeamScore g > AwayTeamScore g \<longrightarrow> winner v = HomeTeam g \<and> loser v = AwayTeam g)"
    and rest: "length ?cl = min 5 (length ?cs)" "sorted (map margin ?cl)"
    unfolding Let_def by blast+
  from ent ev(1) have
    "let g = ?cs ! 0; v = marginOfVictory getMockTournamentData ! 0
         in awayScore v = AwayTeamScore g \<and> homeScore v = HomeTeamScore g \<and>
            (\<bar>AwayTeamScore g - HomeTeamScore g\<bar> < 2 ^ 53 \<longrightarrow>
               margin v = of_int \<bar>AwayTeamScore g - HomeTeamScore g\<bar>) \<and>
            (AwayTeamScore g > HomeTeamScore g \<longrightarrow> winner v = AwayTeam g \<and> loser v = HomeTeam g) \<and>
            (HomeTeamScore g > AwayTeamScore g \<longrightarrow> winner v = HomeTeam g \<and> loser v = AwayTeam g)"
    by blast
  then have "margin (marginOfVictory getMockTournamentData ! 0) = 6 \<and>
      winner (marginOfVictory getMockTournamentData ! 0) = ''Colorado'' \<and>
      loser (marginOfVictory getMockTournamentData ! 0) = ''Virginia''"
    unfolding Let_def ev(3-6) by simp
  with ev(1,2) rest show ?thesis by simp
qed

section \<open>Top scoring teams\<close>

subsection \<open>The object as a dictionary\<close>

lemma set_foldl_add_team: "set (foldl add_team acc ts) = set acc \<union> set ts"
  by (induction ts arbitrary: acc) (auto simp: add_team_def)

lemma distinct_foldl_add_team: "distinct acc \<Longrightarrow> distinct (foldl add_team acc ts)"
  by (induction ts arbitrary: acc) (auto simp: add_team_def)

lemma set_encounter_order:
  "set (encounter_order cs) = (\<Union>g \<in> set cs. {AwayTeam g, HomeTeam g})"
  by (auto simp: encounter_order_def set_foldl_add_team)

lemma distinct_encounter_order: "distinct (encounter_order cs)"
  by (simp add: encounter_order_def distinct_foldl_add_team)

lemma encounter_order_snoc:
  "encounter_order (cs @ [g]) = add_team (add_team (encounter_order cs) (AwayTeam g)) (HomeTeam g)"
  by (simp add: encounter_order_def)

lemma not_encountered_zero:
  assumes "t \<notin> set (encounter_order cs)"
  shows "points_scored t cs = 0" and "games_played t cs = 0"
proof -
  from assms have *: "\<forall>g \<in> set cs. AwayTeam g \<noteq> t \<and> HomeTeam g \<noteq> t"
    by (auto simp: set_encounter_order)
  show "points_scored t cs = 0"
    unfolding points_scored_def using * by (induction cs) auto
  show "games_played t cs = 0"
    unfolding games_played_def using * by (induction cs) auto
qed

lemma games_played_pos: "t \<in> set (encounter_order cs) \<Longrightarrow> 0 < games_played t cs"
  unfolding set_encounter_order games_played_def by (induction cs) auto

lemma points_scored_bounds:
  assumes "\<forall>g \<in> set cs. 0 \<le> AwayTeamScore g \<and> 0 \<le> HomeTeamScore g"
  shows "0 \<le> points_scored t cs" and "points_scored t cs \<le> points_total cs"
proof -
  have "0 \<le> points_scored t cs \<and> points_scored t cs \<le> points_total cs"
    using assms unfolding points_scored_def points_total_def by (induction cs) auto
  then show "0 \<le> points_scored t cs" and "points_scored t cs \<le> points_total cs"
    by simp_all
qed

lemma points_scored_snoc:
  "points_scored t (cs @ [g]) =
     points_scored t cs + (if AwayTeam g = t then AwayTeamScore g else 0) +
       (if HomeTeam g = t then HomeTeamScore g else 0)"
  by (simp add: points_scored_def)

lemma games_played_snoc:
  "games_played t (cs @ [g]) =
     games_played t cs + (if AwayTeam g = t then 1 else 0) + (if HomeTeam g = t then 1 else 0)"
  by (simp add: games_played_def)

lemma points_total_snoc:
  "points_total (cs @ [g]) = points_total cs + AwayTeamScore g + HomeTeamScore g"
  by (simp add: points_total_def)

lemma map_of_map_key: "map_of (map (\<lambda>k. (k, v k)) ks) t = None \<longleftrightarrow> t \<notin> set ks"
  by (induction ks) auto

lemma init_team_closed:
  assumes "t \<notin> set Object_prototype_keys"
    and "t \<notin> set ks \<Longrightarrow> v t = \<lparr> points = 0, games = 0 \<rparr>"
  shows "init_team (map (\<lambda>k. (k, v k)) ks) t = map (\<lambda>k. (k, v k)) (add_team ks t)"
  using assms by (auto simp: init_team_def truthy_member_def map_of_map_key add_team_def)

lemma credit_closed:
  "credit (map (\<lambda>k. (k, v k)) ks) t s =
     map (\<lambda>k. (k, if k = t then \<lparr> points = fl (points (v k) + of_int s), games = games (v k) + 1 \<rparr>
                   else v k)) ks"
  by (induction ks) (auto simp: credit_def)

lemma fl_add_ints:
  assumes "0 \<le> p" and "0 \<le> s" and "p + s < 2 ^ 53"
  shows "fl (of_int p + of_int s) = of_int (p + s)"
proof -
  have "fl (of_int (p + s)) = of_int (p + s)" using assms by (intro fl_of_int) simp_all
  then show ?thesis by simp
qed

lemma team_step_closed:
  assumes plain: "AwayTeam g \<notin> set Object_prototype_keys" "HomeTeam g \<notin> set Object_prototype_keys"
    and nn: "\<forall>g' \<in> set (cs @ [g]). 0 \<le> AwayTeamScore g' \<and> 0 \<le> HomeTeamScore g'"
    and small: "points_total (cs @ [g]) < 2 ^ 53"
  shows "team_step (map (tally cs) (encounter_order cs)) g =
           map (tally (cs @ [g])) (encounter_order (cs @ [g]))"
proof -
  let ?v = "\<lambda>k. \<lparr> points = of_int (points_scored k cs), games = games_played k cs \<rparr>"
  have t: "tally cs = (\<lambda>k. (k, ?v k))" by (simp add: tally_def fun_eq_iff)
  have 1: "init_team (map (\<lambda>k. (k, ?v k)) (encounter_order cs)) (AwayTeam g)
         = map (\<lambda>k. (k, ?v k)) (add_team (encounter_order cs) (AwayTeam g))"
    by (rule init_team_closed) (use plain not_encountered_zero in auto)
  have 2: "init_team (map (\<lambda>k. (k, ?v k)) (add_team (encounter_order cs) (AwayTeam g))) (HomeTeam g)
         = map (\<lambda>k. (k, ?v k)) (encounter_order (cs @ [g]))"
    unfolding encounter_order_snoc
    by (rule init_team_closed)
      (use plain not_encountered_zero in \<open>auto simp: add_team_def split: if_splits\<close>)
  have nncs: "\<forall>g' \<in> set cs. 0 \<le> AwayTeamScore g' \<and> 0 \<le> HomeTeamScore g'"
    and g: "0 \<le> AwayTeamScore g" "0 \<le> HomeTeamScore g"
    using nn by simp_all
  have tot: "points_total cs + AwayTeamScore g + HomeTeamScore g < 2 ^ 53"
    using small by (simp add: points_total_snoc)
  have P: "0 \<le> points_scored k cs" "points_scored k cs \<le> points_total cs" for k
    using points_scored_bounds [OF nncs] by simp_all
  have a: "fl (of_int (points_scored k cs) + of_int (AwayTeamScore g)) =
      of_int (points_scored k cs) + of_int (AwayTeamScore g)" for k
    using fl_add_ints [of "points_scored k cs" "AwayTeamScore g"] P [of k] g tot by simp
  have h: "fl (of_int (points_scored k cs) + of_int (HomeTeamScore g)) =
      of_int (points_scored k cs) + of_int (HomeTeamScore g)" for k
    using fl_add_ints [of "points_scored k cs" "HomeTeamScore g"] P [of k] g tot by simp
  have ah: "fl (of_int (points_scored k cs) + of_int (AwayTeamScore g) + of_int (HomeTeamScore g)) =
      of_int (points_scored k cs) + of_int (AwayTeamScore g) + of_int (HomeTeamScore g)" for k
    using fl_add_ints [of "points_scored k cs + AwayTeamScore g" "HomeTeamScore g"] P [of k] g tot
    by simp
  show ?thesis
    unfolding team_step_def Let_def t 1 2 credit_closed
    by (auto simp: tally_def points_scored_snoc games_played_snoc a h ah)
qed

lemma foldl_team_step_closed:
  assumes "\<forall>g \<in> set cs. AwayTeam g \<notin> set Object_prototype_keys \<and>
             HomeTeam g \<notin> set Object_prototype_keys"
    and "\<forall>g \<in> set cs. 0 \<le> AwayTeamScore g \<and> 0 \<le> HomeTeamScore g"
    and "points_total cs < 2 ^ 53"
  shows "foldl team_step [] cs = map (tally cs) (encounter_order cs)"
  using assms
proof (induction cs rule: rev_induct)
  case Nil
  then show ?case by (simp add: encounter_order_def)
next
  case (snoc g cs)
  have "0 \<le> AwayTeamScore g + HomeTeamScore g" using snoc.prems(2) by simp
  then have "points_total cs < 2 ^ 53"
    using snoc.prems(3) by (simp add: points_total_snoc)
  then have "foldl team_step [] cs = map (tally cs) (encounter_order cs)"
    using snoc.prems(1,2) by (intro snoc.IH) simp_all
  moreover have "team_step (map (tally cs) (encounter_order cs)) g =
           map (tally (cs @ [g])) (encounter_order (cs @ [g]))"
    using snoc.prems by (intro team_step_closed) simp_all
  ultimately show ?case by simp
qed

lemma Object_entries_plain:
  assumes "\<forall>kv \<in> set obj. \<not> is_array_index (fst kv)"
  shows "Object_entries obj = obj"
proof -
  have "filter (\<lambda>kv. is_array_index (fst kv)) obj = []"
    using assms by (simp add: filter_empty_conv)
  moreover have "filter (\<lambda>kv. \<not> is_array_index (fst kv)) obj = obj"
    using assms by (simp add: filter_id_conv)
  ultimately show ?thesis by (simp add: Object_entries_def)
qed

lemma teamScores_closed:
  assumes "\<forall>g \<in> set (completedGames gs). plain_team (AwayTeam g) \<and> plain_team (HomeTeam g)"
    and "modest_scores gs"
  shows "teamScores gs = map (tally (completedGames gs)) (encounter_order (completedGames gs))"
proof -
  have "points_total (completedGames gs) < 2 ^ 53"
    using modest_completed(2) [OF assms(2)] by simp
  then show ?thesis
    unfolding teamScores_def using assms(1) modest_completed(1) [OF assms(2)]
    by (intro foldl_team_step_closed) (simp_all add: plain_team_def)
qed

lemma teamsWithAvg_closed:
  assumes "\<forall>g \<in> set (completedGames gs). plain_team (AwayTeam g) \<and> plain_team (HomeTeam g)"
    and "modest_scores gs"
  shows "teamsWithAvg gs = sort_key (\<lambda>t. - avgPoints t) (per_team (completedGames gs))"
proof -
  let ?cs = "completedGames gs"
  have ts: "teamScores gs = map (tally ?cs) (encounter_order ?cs)"
    using assms by (rule teamScores_closed)
  have "\<forall>k \<in> set (encounter_order ?cs). \<not> is_array_index k"
    using assms(1) by (auto simp: set_encounter_order plain_team_def)
  then have oe: "Object_entries (teamScores gs) = map (tally ?cs) (encounter_order ?cs)"
    unfolding ts by (intro Object_entries_plain) (auto simp: tally_def)
  have avg: "round_one_decimal (fl (of_int (points_scored k ?cs) / of_nat (games_played k ?cs))) =
      fl (round_to_tenth (of_int (points_scored k ?cs) / of_nat (games_played k ?cs)))"
    if "k \<in> set (encounter_order ?cs)" for k
  proof (rule round_one_decimal_exact)
    show "0 \<le> points_scored k ?cs"
      using points_scored_bounds(1) [OF modest_completed(1) [OF assms(2)]] .
    show "points_scored k ?cs < 2 ^ 46"
      using points_scored_bounds(2) [OF modest_completed(1) [OF assms(2)], of k]
        modest_completed(2) [OF assms(2)] by simp
    show "0 < games_played k ?cs" using that by (rule games_played_pos)
  qed
  have pt: "map (\<lambda>(k, d).
                  \<lparr> team = k,
                    avgPoints = (if games d \<noteq> 0
                                 then round_one_decimal (fl (points d / of_nat (games d)))
                                 else 0),
                    team_totalPoints = points d,
                    team_games = games d \<rparr>) (map (tally ?cs) (encounter_order ?cs)) = per_team ?cs"
    unfolding per_team_def map_map
    by (rule map_cong [OF refl]) (use games_played_pos in \<open>auto simp: tally_def avg\<close>)
  have "filter (\<lambda>t. team_games t > 0) (per_team ?cs) = per_team ?cs"
    by (simp add: filter_id_conv per_team_def games_played_pos)
  then show ?thesis
    unfolding teamsWithAvg_def oe pt by simp
qed

text \<open>
  Claim C7, for team names that are plain dictionary keys and scores in the range
  \<open>modest_scores\<close>. The per-team aggregates \<open>per_team\<close> have one entry for each team of a
  completed game, in first-encounter order, crediting home and away appearances, with the
  average the double of the total divided by the games played and rounded to one decimal.
  The \<^verbatim>\<open>topScoringTeams\<close> that the statistics computation returns has five entries, or as
  many as there are teams when these are fewer; it is sorted descending by average; its
  entries are aggregates whose average is no smaller than that of any aggregate left out;
  and it lists the entries of any one average in first-encounter order.
\<close>

theorem topScoringTeams_plain_names:
  assumes "\<forall>g \<in> set gs. Status g = ''Final'' \<longrightarrow> plain_team (AwayTeam g) \<and> plain_team (HomeTeam g)"
    and "modest_scores gs"
  shows
   "let cs = filter (\<lambda>g. Status g = ''Final'') gs;
        top = st_topScoringTeams (calculateTournamentStats gs)
    in distinct (map team (per_team cs)) \<and>
       set (map team (per_team cs)) = (\<Union>g \<in> set cs. {AwayTeam g, HomeTeam g}) \<and>
       (\<forall>e \<in> set (per_team cs).
          team_totalPoints e = of_int (points_scored (team e) cs) \<and>
          team_games e = games_played (team e) cs \<and> 0 < team_games e \<and>
          avgPoints e = fl (round_to_tenth (team_totalPoints e / of_nat (team_games e)))) \<and>
       length top = min 5 (length (per_team cs)) \<and>
       sorted_wrt (\<lambda>a b. avgPoints a \<ge> avgPoints b) top \<and>
       (\<exists>rest. mset top + mset rest = mset (per_team cs) \<and>
          (\<forall>a \<in> set top. \<forall>b \<in> set rest. avgPoints a \<ge> avgPoints b)) \<and>
       (\<forall>k. prefix (filter (\<lambda>e. avgPoints e = k) top)
                   (filter (\<lambda>e. avgPoints e = k) (per_team cs)))"
proof -
  define cs where "cs = filter (\<lambda>g. Status g = ''Final'') gs"
  define top where "top = st_topScoringTeams (calculateTournamentStats gs)"
  have cs: "completedGames gs = cs" by (simp add: cs_def completedGames_def)
  let ?key = "\<lambda>t::team_avg. - avgPoints t"
  let ?s = "sort_key ?key (per_team cs)"
  have "\<forall>g \<in> set (completedGames gs). plain_team (AwayTeam g) \<and> plain_team (HomeTeam g)"
    using assms(1) by (simp add: completedGames_def)
  then have "teamsWithAvg gs = ?s"
    using assms(2) unfolding cs [symmetric] by (rule teamsWithAvg_closed)
  then have top: "top = take 5 ?s"
    by (simp add: top_def calculateTournamentStats_def topScoringTeams_def)
  have names: "map team (per_team cs) = encounter_order cs"
    by (simp add: per_team_def comp_def)
  have d: "distinct (map team (per_team cs))"
    by (simp add: names distinct_encounter_order)
  have st: "set (map team (per_team cs)) = (\<Union>g \<in> set cs. {AwayTeam g, HomeTeam g})"
    unfolding names by (rule set_encounter_order)
  have ent: "\<forall>e \<in> set (per_team cs).
          team_totalPoints e = of_int (points_scored (team e) cs) \<and>
          team_games e = games_played (team e) cs \<and> 0 < team_games e \<and>
          avgPoints e = fl (round_to_tenth (team_totalPoints e / of_nat (team_games e)))"
    by (auto simp: per_team_def games_played_pos)
  have five: "length top = min 5 (length (per_team cs))"
    by (simp add: top min.commute)
  have "sorted (map ?key top)"
    unfolding top by (rule sorted_take_key)
  then have srt: "sorted_wrt (\<lambda>a b. avgPoints a \<ge> avgPoints b) top"
    by (simp add: sorted_map)
  have "mset top + mset (drop 5 ?s) = mset (per_team cs)"
    unfolding top by (metis append_take_drop_id mset_append mset_sort)
  moreover have "\<forall>a \<in> set top. \<forall>b \<in> set (drop 5 ?s). avgPoints a \<ge> avgPoints b"
    unfolding top using take_sort_key_least [of _ 5 ?key "per_team cs"] by fastforce
  ultimately have best: "\<exists>rest. mset top + mset rest = mset (per_team cs) \<and>
        (\<forall>a \<in> set top. \<forall>b \<in> set rest. avgPoints a \<ge> avgPoints b)"
    by blast
  have stable: "prefix (filter (\<lambda>e. avgPoints e = k) top)
                 (filter (\<lambda>e. avgPoints e = k) (per_team cs))" for k
    unfolding top using take_sort_key_stable [of ?key "- k" 5 "per_team cs"] by simp
  from d st ent five srt best stable show ?thesis
    unfolding Let_def cs_def [symmetric] top_def [symmetric] by blast
qed

theorem topScoringTeams_plain_names_witness:
  "plain_team ''Virginia'' \<and> plain_team ''Colorado'' \<and> plain_team ''Duquesne'' \<and> plain_team ''BYU'' \<and>
   modest_scores getMockTournamentData \<and>
   length (st_topScoringTeams (calculateTournamentStats getMockTournamentData)) = 4 \<and>
   set (map team (per_team (take 2 getMockTournamentData))) =
     {''Virginia'', ''Colorado'', ''Duquesne'', ''BYU''}"
proof -
  have names: "plain_team ''Virginia'' \<and> plain_team ''Colorado'' \<and>
      plain_team ''Duquesne'' \<and> plain_team ''BYU''"
    by (simp add: plain_team_def is_array_index_def Object_prototype_keys_def)
  then have h: "\<forall>g \<in> set getMockTournamentData.
      Status g = ''Final'' \<longrightarrow> plain_team (AwayTeam g) \<and> plain_team (HomeTeam g)"
    by (simp add: getMockTournamentData_def)
  have four: "length (per_team (take 2 getMockTournamentData)) = 4"
    by (simp add: per_team_def encounter_order_def add_team_def getMockTournamentData_def)
  from topScoringTeams_plain_names [OF h mock_modest]
  have "set (map team (per_team (take 2 getMockTournamentData))) =
          (\<Union>g \<in> set (take 2 getMockTournamentData). {AwayTeam g, HomeTeam g})"
    and "length (st_topScoringTeams (calculateTournamentStats getMockTournamentData)) =
          min 5 (length (per_team (take 2 getMockTournamentData)))"
    unfolding Let_def mock_completed by blast+
  with names mock_modest four show ?thesis
    by (simp add: getMockTournamentData_def insert_commute)
qed

subsection \<open>A team whose name is an array index\<close>

lemma floor_quotient_numeral:
  "\<lfloor>numeral a / numeral b :: rat\<rfloor> = numeral a div numeral b"
  using floor_divide_of_int_eq [of "numeral a" "numeral b", where ?'a = rat] by simp

lemma fl_numeral: "(numeral w :: int) < 2 ^ 53 \<Longrightarrow> fl (numeral w) = numeral w"
  using fl_of_int [of "numeral w"] by simp

lemma fl_zero [simp]: "fl 0 = 0"
  by (simp add: fl_def)

lemmas team_defs = teamScores_def completedGames_def team_step_def init_team_def
  truthy_member_def credit_def Object_prototype_keys_def Let_def

lemma numeric_name_teamScores: "teamScores numeric_name_batch =
  [(''Duke'', \<lparr>points = 70, games = 1\<rparr>), (''UNC'', \<lparr>points = 60, games = 1\<rparr>),
   (''12'', \<lparr>points = 70, games = 1\<rparr>), (''Rice'', \<lparr>points = 50, games = 1\<rparr>)]"
  by (simp add: team_defs numeric_name_batch_def fl_numeral)

lemma numeric_name_entries: "Object_entries (teamScores numeric_name_batch) =
  [(''12'', \<lparr>points = 70, games = 1\<rparr>), (''Duke'', \<lparr>points = 70, games = 1\<rparr>),
   (''UNC'', \<lparr>points = 60, games = 1\<rparr>), (''Rice'', \<lparr>points = 50, games = 1\<rparr>)]"
  by (simp add: numeric_name_teamScores Object_entries_def is_array_index_def array_index_value_def)

lemma round_one_decimal_numerals:
  "round_one_decimal 70 = 70" "round_one_decimal 60 = 60" "round_one_decimal 50 = 50"
  by (simp_all add: round_one_decimal_def Math_round_def fl_numeral floor_quotient_numeral)

lemma numeric_name_teamsWithAvg: "teamsWithAvg numeric_name_batch =
   [\<lparr> team = ''12'', avgPoints = 70, team_totalPoints = 70, team_games = 1 \<rparr>,
    \<lparr> team = ''Duke'', avgPoints = 70, team_totalPoints = 70, team_games = 1 \<rparr>,
    \<lparr> team = ''UNC'', avgPoints = 60, team_totalPoints = 60, team_games = 1 \<rparr>,
    \<lparr> team = ''Rice'', avgPoints = 50, team_totalPoints = 50, team_games = 1 \<rparr>]"
  by (simp add: teamsWithAvg_def numeric_name_entries fl_numeral round_one_decimal_numerals)

lemma numeric_name_encounter_order:
  "encounter_order numeric_name_batch = [''Duke'', ''UNC'', ''12'', ''Rice'']"
  by (simp add: encounter_order_def numeric_name_batch_def add_team_def)

text \<open>
  As the claim is stated, for every batch, it fails. In this batch both games are
  completed, and \<^verbatim>\<open>Duke\<close> is met before the team named \<^verbatim>\<open>12\<close>; both average 70. A team
  whose name is an array index is listed by \<^verbatim>\<open>Object.entries\<close> before the teams met
  earlier, and the stable sort keeps it ahead of them on equal averages.
\<close>

theorem topScoringTeams_numeric_name_counterexample:
  "map team (st_topScoringTeams (calculateTournamentStats numeric_name_batch)) =
     [''12'', ''Duke'', ''UNC'', ''Rice''] \<and>
   map avgPoints (st_topScoringTeams (calculateTournamentStats numeric_name_batch)) =
     [70, 70, 60, 50] \<and>
   map Status numeric_name_batch = [''Final'', ''Final''] \<and>
   encounter_order numeric_name_batch = [''Duke'', ''UNC'', ''12'', ''Rice'']"
  by (simp add: calculateTournamentStats_def topScoringTeams_def numeric_name_teamsWithAvg
      numeric_name_encounter_order) (simp add: numeric_name_batch_def)


end
